theory Spec2Isabelle
  imports Main
begin

section \<open>Python strings\<close>

text \<open>
  A Python \<^verbatim>\<open>str\<close> is a sequence of Unicode code points, so a string is a list of
  code points here. Source literals are written \<open>lit ''...''\<close>.
\<close>

type_synonym pystr = "nat list"

definition lit :: "string \<Rightarrow> pystr" where
  "lit cs = map of_char cs"

text \<open>
  \<^verbatim>\<open>str.isspace\<close> on one code point: the code points Python counts as whitespace
  (U+0009..U+000D, U+001C..U+0020, U+0085, U+00A0, U+1680, U+2000..U+200A, U+2028,
  U+2029, U+202F, U+205F, U+3000). \<^verbatim>\<open>str.strip()\<close> without argument removes exactly
  these from both ends.
\<close>

definition isspace :: "nat \<Rightarrow> bool" where
  "isspace c =
     ((9 \<le> c \<and> c \<le> 13) \<or> (28 \<le> c \<and> c \<le> 32) \<or> c = 133 \<or> c = 160 \<or> c = 5760 \<or>
      (8192 \<le> c \<and> c \<le> 8202) \<or> c = 8232 \<or> c = 8233 \<or> c = 8239 \<or> c = 8287 \<or>
      c = 12288)"

definition py_strip :: "pystr \<Rightarrow> pystr" where
  "py_strip s = rev (dropWhile isspace (rev (dropWhile isspace s)))"

text \<open>The two halves of \<open>py_strip\<close>, \<^verbatim>\<open>str.lstrip()\<close> and \<^verbatim>\<open>str.rstrip()\<close>.\<close>

definition lstrip :: "pystr \<Rightarrow> pystr" where
  "lstrip s = dropWhile isspace s"

definition rstrip :: "pystr \<Rightarrow> pystr" where
  "rstrip s = rev (dropWhile isspace (rev s))"

text \<open>
  \<^verbatim>\<open>s.split(sep)\<close> for a one-character separator: every occurrence of the separator
  ends a field, so the result has one field more than \<open>s\<close> has separators, and the
  empty string gives one empty field.
\<close>

fun py_split :: "nat \<Rightarrow> pystr \<Rightarrow> pystr list" where
  "py_split sep [] = [[]]"
| "py_split sep (c # cs) =
     (if c = sep then [] # py_split sep cs
      else (case py_split sep cs of
              [] \<Rightarrow> [[c]]
            | f # fs \<Rightarrow> (c # f) # fs))"

text \<open>\<^verbatim>\<open>sep.join(fields)\<close>, the inverse of \<open>py_split\<close>.\<close>

fun py_join :: "nat \<Rightarrow> pystr list \<Rightarrow> pystr" where
  "py_join sep [] = []"
| "py_join sep [f] = f"
| "py_join sep (f # g # fs) = f @ sep # py_join sep (g # fs)"

definition comma :: nat where
  "comma = 44"

text \<open>
  The label parser of both files (flask.py line 47, flask2.py line 154):
  \<^verbatim>\<open>[lbl.strip() for lbl in candidate_labels.split(",") if lbl.strip()]\<close>
\<close>

definition parse_labels :: "pystr \<Rightarrow> pystr list" where
  "parse_labels candidate_labels =
     [py_strip lbl. lbl \<leftarrow> py_split comma candidate_labels, py_strip lbl \<noteq> []]"


text \<open>
  \<^verbatim>\<open>s.splitlines()\<close>: the lines of \<open>s\<close> without their line breaks. A line break is
  one of the code points below or the pair CR LF; a break at the very end opens no
  further line.
\<close>

definition is_linebreak :: "nat \<Rightarrow> bool" where
  "is_linebreak c =
     (c = 10 \<or> c = 11 \<or> c = 12 \<or> c = 13 \<or> c = 28 \<or> c = 29 \<or> c = 30 \<or> c = 133 \<or>
      c = 8232 \<or> c = 8233)"

fun py_splitlines_from :: "pystr \<Rightarrow> pystr \<Rightarrow> pystr list" where
  "py_splitlines_from cur [] = (if cur = [] then [] else [rev cur])"
| "py_splitlines_from cur (c # cs) =
     (if c = 13 then
        (case cs of
           [] \<Rightarrow> [rev cur]
         | d # ds \<Rightarrow>
             if d = 10 then rev cur # py_splitlines_from [] ds
             else rev cur # py_splitlines_from [] cs)
      else if is_linebreak c then rev cur # py_splitlines_from [] cs
      else py_splitlines_from (c # cur) cs)"

definition py_splitlines :: "pystr \<Rightarrow> pystr list" where
  "py_splitlines s = py_splitlines_from [] s"

text \<open>The slice \<^verbatim>\<open>xs[-10:]\<close>: the last ten elements, or all of a shorter list.\<close>

definition last10 :: "'a list \<Rightarrow> 'a list" where
  "last10 xs = drop (length xs - 10) xs"


section \<open>Exceptions and values\<close>

text \<open>
  The exceptions the two files can meet. \<open>KeyError\<close> comes from a dictionary
  subscript, \<open>ValueError\<close> from the \<^verbatim>\<open>raise\<close> statements of flask2.py, \<open>TypeError\<close>
  from an operator applied to operands it does not accept. What the transformers
  library raises is opaque: \<open>LibException\<close> for an exception that derives from
  \<^verbatim>\<open>Exception\<close> (the only ones \<^verbatim>\<open>except Exception\<close> catches), \<open>LibBaseException\<close>
  for one that does not (\<^verbatim>\<open>KeyboardInterrupt\<close>, \<^verbatim>\<open>SystemExit\<close>).
\<close>

datatype 'e exn =
    KeyError "pystr option"
  | ValueError pystr
  | TypeError pystr
  | LibException 'e
  | LibBaseException 'e

fun is_Exception :: "'e exn \<Rightarrow> bool" where
  "is_Exception (LibBaseException x) = False"
| "is_Exception (KeyError k) = True"
| "is_Exception (ValueError m) = True"
| "is_Exception (TypeError m) = True"
| "is_Exception (LibException x) = True"

text \<open>
  The operands of the \<^verbatim>\<open>+\<close> of flask2.py line 164 are strings and a list of
  strings. Python concatenates two strings or two lists and raises \<open>TypeError\<close> on a
  mixed pair.
\<close>

datatype str_or_list = Str pystr | StrList "pystr list"

fun py_add :: "str_or_list \<Rightarrow> str_or_list \<Rightarrow> 'e exn + str_or_list" where
  "py_add (Str a) (Str b) = Inr (Str (a @ b))"
| "py_add (StrList a) (StrList b) = Inr (StrList (a @ b))"
| "py_add (Str a) (StrList b) =
     Inl (TypeError (lit ''can only concatenate str (not '' @ [34] @ lit ''list'' @ [34] @
                     lit '') to str''))"
| "py_add (StrList a) (Str b) =
     Inl (TypeError (lit ''can only concatenate list (not '' @ [34] @ lit ''str'' @ [34] @
                     lit '') to list''))"

text \<open>The values handed to the page template; \<open>'r\<close> is what a pipeline returns.\<close>

datatype 'r pyval = PNone | PStr pystr | PStrList "pystr list" | PBool bool | PResult 'r

fun to_pyval :: "str_or_list \<Rightarrow> 'r pyval" where
  "to_pyval (Str s) = PStr s"
| "to_pyval (StrList l) = PStrList l"

fun task_val :: "pystr option \<Rightarrow> 'r pyval" where
  "task_val None = PNone"
| "task_val (Some t) = PStr t"

text \<open>
  The keyword arguments of \<^verbatim>\<open>render_template_string\<close>, in the order written: this is
  all of a response that depends on the request. Rendering the HTML itself is Flask's.
\<close>

type_synonym 'r page = "(string \<times> 'r pyval) list"


section \<open>The transformers library and the state across requests\<close>

text \<open>
  The three ways a pipeline object is called (flask.py 43-48, flask2.py 149-157):
  with the text alone, with the text and \<^verbatim>\<open>max_length\<close>, \<^verbatim>\<open>min_length\<close>, \<^verbatim>\<open>do_sample\<close>,
  and with the text and the list \<^verbatim>\<open>candidate_labels\<close>.
\<close>

datatype call_args =
    Text pystr
  | TextBounded pystr int int bool
  | TextLabels pystr "pystr list"

text \<open>
  The library is a parameter. Its calls act on a world \<open>'w\<close> of their own (downloads,
  files, memory), so a call may fail once and succeed later, and two loads may give
  two objects. \<open>import_pipeline\<close> is the first execution of
  \<^verbatim>\<open>from transformers import pipeline\<close>; \<open>pipeline\<close> is the constructor, called with task,
  model and, in flask2.py, \<^verbatim>\<open>device=-1\<close>; \<open>nlp_call\<close> calls a pipeline object;
  \<open>format_exc\<close> is \<^verbatim>\<open>traceback.format_exc()\<close> while the exception is handled and
  \<open>exc_str\<close> is \<^verbatim>\<open>str(e)\<close> for an exception the files do not raise themselves.
\<close>

record ('e, 'p, 'r, 'w) library =
  import_pipeline :: "'w \<Rightarrow> 'e exn option \<times> 'w"
  pipeline :: "pystr \<Rightarrow> pystr \<Rightarrow> int option \<Rightarrow> 'w \<Rightarrow> ('e exn + 'p) \<times> 'w"
  nlp_call :: "'p \<Rightarrow> call_args \<Rightarrow> 'w \<Rightarrow> ('e exn + 'r) \<times> 'w"
  format_exc :: "'e exn \<Rightarrow> pystr"
  exc_str :: "'e exn \<Rightarrow> pystr"

text \<open>
  What happens is recorded in a trace: the calls of \<^verbatim>\<open>get_pipeline\<close>, of the
  constructor and of a pipeline object, and the log records.
\<close>

datatype 'p event =
    Called_get_pipeline "pystr option"
  | Called_pipeline pystr pystr "int option"
  | Called_nlp 'p call_args
  | Logged_info pystr
  | Logged_error pystr

fun is_library_call :: "'p event \<Rightarrow> bool" where
  "is_library_call (Called_pipeline t m d) = True"
| "is_library_call (Called_nlp p a) = True"
| "is_library_call (Called_get_pipeline t) = False"
| "is_library_call (Logged_info m) = False"
| "is_library_call (Logged_error m) = False"

fun is_nlp_call :: "'p event \<Rightarrow> bool" where
  "is_nlp_call (Called_nlp p a) = True"
| "is_nlp_call (Called_pipeline t m d) = False"
| "is_nlp_call (Called_get_pipeline t) = False"
| "is_nlp_call (Logged_info m) = False"
| "is_nlp_call (Logged_error m) = False"

record ('p, 'w) outside =
  world :: 'w
  trace :: "'p event list"

definition emit :: "'p event \<Rightarrow> ('p, 'w, 'z) outside_scheme \<Rightarrow> ('p, 'w, 'z) outside_scheme" where
  "emit ev s = s\<lparr>trace := trace s @ [ev]\<rparr>"

definition call_pipeline ::
  "('e, 'p, 'r, 'w) library \<Rightarrow> pystr \<Rightarrow> pystr \<Rightarrow> int option \<Rightarrow> ('p, 'w, 'z) outside_scheme \<Rightarrow>
   ('e exn + 'p) \<times> ('p, 'w, 'z) outside_scheme" where
  "call_pipeline lib task model device s =
     (case pipeline lib task model device (world s) of
        (r, w) \<Rightarrow> (r, emit (Called_pipeline task model device) (s\<lparr>world := w\<rparr>)))"

definition call_nlp ::
  "('e, 'p, 'r, 'w) library \<Rightarrow> 'p \<Rightarrow> call_args \<Rightarrow> ('p, 'w, 'z) outside_scheme \<Rightarrow>
   ('e exn + 'r) \<times> ('p, 'w, 'z) outside_scheme" where
  "call_nlp lib nlp args s =
     (case nlp_call lib nlp args (world s) of
        (r, w) \<Rightarrow> (r, emit (Called_nlp nlp args) (s\<lparr>world := w\<rparr>)))"

text \<open>A request: \<^verbatim>\<open>request.method\<close> and the form fields behind \<^verbatim>\<open>request.form.get\<close>.\<close>

datatype http_method = GET | HEAD | POST

record request =
  request_method :: http_method
  form :: "string \<rightharpoonup> pystr"

definition form_get :: "(string \<rightharpoonup> pystr) \<Rightarrow> string \<Rightarrow> pystr \<Rightarrow> pystr" where
  "form_get f k d = (case f k of None \<Rightarrow> d | Some v \<Rightarrow> v)"

definition sentiment_analysis :: pystr where
  "sentiment_analysis = lit ''sentiment-analysis''"

definition summarization :: pystr where
  "summarization = lit ''summarization''"

definition zero_shot_classification :: pystr where
  "zero_shot_classification = lit ''zero-shot-classification''"

definition distilbert_sst2 :: pystr where
  "distilbert_sst2 = lit ''distilbert-base-uncased-finetuned-sst-2-english''"

definition distilbart_cnn :: pystr where
  "distilbart_cnn = lit ''sshleifer/distilbart-cnn-12-6''"

definition bart_large_mnli :: pystr where
  "bart_large_mnli = lit ''facebook/bart-large-mnli''"



section \<open>flask.py\<close>

text \<open>The module state of flask.py: the dictionary \<^verbatim>\<open>pipelines_cache\<close>, empty at start.\<close>

record ('p, 'w) state_flask = "('p, 'w) outside" +
  pipelines_cache :: "pystr option \<rightharpoonup> 'p"

definition initial_flask :: "'w \<Rightarrow> ('p, 'w) state_flask" where
  "initial_flask w = \<lparr>world = w, trace = [], pipelines_cache = Map.empty\<rparr>"

text \<open>
  One assignment \<^verbatim>\<open>pipelines_cache[task] = pipeline(task, model=...)\<close> (lines 18-25):
  the constructor runs first, and when it raises nothing is stored.
\<close>

definition store_pipeline_flask ::
  "('e, 'p, 'r, 'w) library \<Rightarrow> pystr \<Rightarrow> pystr \<Rightarrow> ('p, 'w) state_flask \<Rightarrow>
   'e exn option \<times> ('p, 'w) state_flask" where
  "store_pipeline_flask lib task model s =
     (case call_pipeline lib task model None s of
        (Inl e, s1) \<Rightarrow> (Some e, s1)
      | (Inr p, s1) \<Rightarrow> (None, s1\<lparr>pipelines_cache := (pipelines_cache s1)(Some task \<mapsto> p)\<rparr>))"

text \<open>
  \<^verbatim>\<open>get_pipeline\<close> of flask.py (lines 14-26). The argument is what
  \<^verbatim>\<open>request.form.get("task")\<close> gave: a string or \<^verbatim>\<open>None\<close>. The last line subscripts the
  dictionary and raises \<open>KeyError\<close> when the key is not there.
\<close>

definition get_pipeline_flask ::
  "('e, 'p, 'r, 'w) library \<Rightarrow> pystr option \<Rightarrow> ('p, 'w) state_flask \<Rightarrow>
   ('e exn + 'p) \<times> ('p, 'w) state_flask" where
  "get_pipeline_flask lib task s =
     (let s0 = emit (Called_get_pipeline task) s in
      case (if pipelines_cache s0 task = None then
              if task = Some sentiment_analysis then
                store_pipeline_flask lib sentiment_analysis distilbert_sst2 s0
              else if task = Some summarization then
                store_pipeline_flask lib summarization distilbart_cnn s0
              else if task = Some zero_shot_classification then
                store_pipeline_flask lib zero_shot_classification bart_large_mnli s0
              else (None, s0)
            else (None, s0)) of
        (Some e, s1) \<Rightarrow> (Inl e, s1)
      | (None, s1) \<Rightarrow>
          (case pipelines_cache s1 task of
             None \<Rightarrow> (Inl (KeyError task), s1)
           | Some p \<Rightarrow> (Inr p, s1)))"

definition render_flask ::
  "'r pyval \<Rightarrow> pystr \<Rightarrow> 'r pyval \<Rightarrow> pystr \<Rightarrow> 'r page" where
  "render_flask result input_text selected_task candidate_labels =
     [(''result'', result),
      (''input_text'', PStr input_text),
      (''selected_task'', selected_task),
      (''candidate_labels'', PStr candidate_labels)]"

text \<open>A pipeline call whose result becomes \<^verbatim>\<open>result\<close> (lines 43, 45, 48).\<close>

definition run_flask ::
  "('e, 'p, 'r, 'w) library \<Rightarrow> 'p \<Rightarrow> call_args \<Rightarrow> ('p, 'w) state_flask \<Rightarrow>
   ('e exn + 'r pyval) \<times> ('p, 'w) state_flask" where
  "run_flask lib nlp args s =
     (case call_nlp lib nlp args s of
        (Inl e, s1) \<Rightarrow> (Inl e, s1)
      | (Inr out, s1) \<Rightarrow> (Inr (PResult out), s1))"

text \<open>
  \<^verbatim>\<open>index\<close> of flask.py (lines 29-107). There is no \<^verbatim>\<open>try\<close> in the file: an exception
  leaves the handler (\<open>Inl\<close>). Otherwise the handler returns the rendered page.
\<close>

definition index_flask ::
  "('e, 'p, 'r, 'w) library \<Rightarrow> request \<Rightarrow> ('p, 'w) state_flask \<Rightarrow>
   ('e exn + 'r page) \<times> ('p, 'w) state_flask" where
  "index_flask lib req s =
     (if request_method req = POST then
        (let selected_task = form req ''task'';
             input_text = form_get (form req) ''input_text'' [];
             candidate_labels = form_get (form req) ''labels'' []
         in if py_strip input_text \<noteq> [] then
              (case get_pipeline_flask lib selected_task s of
                 (Inl e, s1) \<Rightarrow> (Inl e, s1)
               | (Inr nlp, s1) \<Rightarrow>
                   (case (if selected_task = Some sentiment_analysis then
                            run_flask lib nlp (Text input_text) s1
                          else if selected_task = Some summarization then
                            run_flask lib nlp (TextBounded input_text 80 20 False) s1
                          else if selected_task = Some zero_shot_classification then
                            run_flask lib nlp
                              (TextLabels input_text (parse_labels candidate_labels)) s1
                          else (Inr PNone, s1)) of
                      (Inl e, s2) \<Rightarrow> (Inl e, s2)
                    | (Inr result, s2) \<Rightarrow>
                        (Inr (render_flask result input_text (task_val selected_task)
                                candidate_labels), s2)))
            else (Inr (render_flask PNone input_text (task_val selected_task)
                         candidate_labels), s))
      else (Inr (render_flask PNone [] (PStr sentiment_analysis) []), s))"


section \<open>flask2.py\<close>

text \<open>
  The module state of flask2.py: the dictionaries \<^verbatim>\<open>pipelines\<close> and
  \<^verbatim>\<open>MODEL_CHOICES\<close> (lines 10-19), and whether \<^verbatim>\<open>transformers\<close> is already imported
  (\<^verbatim>\<open>sys.modules\<close>): the import statement of line 23 loads the module the first time it
  succeeds and finds it afterwards.
\<close>

record ('p, 'w) state_flask2 = "('p, 'w) outside" +
  pipelines :: "pystr \<rightharpoonup> 'p"
  MODEL_CHOICES :: "pystr \<rightharpoonup> pystr"
  transformers_imported :: bool

definition initial_flask2 :: "'w \<Rightarrow> ('p, 'w) state_flask2" where
  "initial_flask2 w =
     \<lparr>world = w, trace = [], pipelines = Map.empty,
      MODEL_CHOICES = [sentiment_analysis \<mapsto> distilbert_sst2,
                       summarization \<mapsto> distilbart_cnn,
                       zero_shot_classification \<mapsto> bart_large_mnli],
      transformers_imported = False\<rparr>"

definition import_stmt ::
  "('e, 'p, 'r, 'w) library \<Rightarrow> ('p, 'w) state_flask2 \<Rightarrow> 'e exn option \<times> ('p, 'w) state_flask2" where
  "import_stmt lib s =
     (if transformers_imported s then (None, s)
      else (case import_pipeline lib (world s) of
              (None, w) \<Rightarrow> (None, s\<lparr>world := w, transformers_imported := True\<rparr>)
            | (Some e, w) \<Rightarrow> (Some e, s\<lparr>world := w\<rparr>)))"

text \<open>The body of the \<^verbatim>\<open>try\<close> of \<^verbatim>\<open>get_pipeline\<close> (lines 32-39).\<close>

definition construct_flask2 ::
  "('e, 'p, 'r, 'w) library \<Rightarrow> pystr \<Rightarrow> pystr \<Rightarrow> ('p, 'w) state_flask2 \<Rightarrow>
   ('e exn + 'p) \<times> ('p, 'w) state_flask2" where
  "construct_flask2 lib task model s =
     (if task = sentiment_analysis then
        call_pipeline lib sentiment_analysis model (Some (- 1)) s
      else if task = summarization then
        call_pipeline lib summarization model (Some (- 1)) s
      else if task = zero_shot_classification then
        call_pipeline lib zero_shot_classification model (Some (- 1)) s
      else (Inl (ValueError (lit ''Unsupported task'')), s))"

text \<open>The message of line 30.\<close>

definition loading_message :: "pystr \<Rightarrow> pystr \<Rightarrow> pystr" where
  "loading_message task model =
     lit ''Loading pipeline for task '' @ task @ lit '' using model '' @ model @ lit '' ...''"

text \<open>
  \<^verbatim>\<open>get_pipeline\<close> of flask2.py (lines 21-45). \<^verbatim>\<open>not model\<close> holds for a missing entry
  and for an empty string. The \<^verbatim>\<open>except Exception\<close> clause logs and raises again.
\<close>

definition get_pipeline_flask2 ::
  "('e, 'p, 'r, 'w) library \<Rightarrow> pystr \<Rightarrow> ('p, 'w) state_flask2 \<Rightarrow>
   ('e exn + 'p) \<times> ('p, 'w) state_flask2" where
  "get_pipeline_flask2 lib task s =
     (case import_stmt lib (emit (Called_get_pipeline (Some task)) s) of
        (Some e, s1) \<Rightarrow> (Inl e, s1)
      | (None, s1) \<Rightarrow>
          (case pipelines s1 task of
             Some p \<Rightarrow> (Inr p, s1)
           | None \<Rightarrow>
               (let model = (case MODEL_CHOICES s1 task of None \<Rightarrow> [] | Some m \<Rightarrow> m) in
                if model = [] then (Inl (ValueError (lit ''Unknown task: '' @ task)), s1)
                else
                  (case construct_flask2 lib task model
                          (emit (Logged_info (loading_message task model)) s1) of
                     (Inl e, s2) \<Rightarrow>
                       (Inl e,
                        if is_Exception e then
                          emit (Logged_error (lit ''Failed to load pipeline:'' @ [10] @
                                  format_exc lib e)) s2
                        else s2)
                   | (Inr p, s2) \<Rightarrow>
                       (Inr p,
                        emit (Logged_info (lit ''Pipeline loaded.''))
                          (s2\<lparr>pipelines := (pipelines s2)(task \<mapsto> p)\<rparr>))))))"

definition render_flask2 ::
  "'r pyval \<Rightarrow> 'r pyval \<Rightarrow> pystr \<Rightarrow> pystr \<Rightarrow> pystr \<Rightarrow> pystr \<Rightarrow> 'r page" where
  "render_flask2 result error input_text selected_task candidate_labels model_override =
     [(''result'', result),
      (''error'', error),
      (''input_text'', PStr input_text),
      (''selected_task'', PStr selected_task),
      (''candidate_labels'', PStr candidate_labels),
      (''model_override'', PStr model_override),
      (''busy'', PBool False)]"

text \<open>
  The body of the \<^verbatim>\<open>try\<close> of \<^verbatim>\<open>index\<close> (lines 142-161), on the fields as \<^verbatim>\<open>index\<close> has
  prepared them. It starts with the override of lines 142-144, which writes into
  \<^verbatim>\<open>MODEL_CHOICES\<close>, and gives the value of \<^verbatim>\<open>out\<close> or the exception raised.
\<close>

definition override_flask2 ::
  "pystr \<Rightarrow> pystr \<Rightarrow> ('p, 'w) state_flask2 \<Rightarrow> ('p, 'w) state_flask2" where
  "override_flask2 selected_task model_override s =
     (if model_override \<noteq> [] then
        s\<lparr>MODEL_CHOICES := (MODEL_CHOICES s)(selected_task \<mapsto> model_override)\<rparr>
      else s)"

definition try_flask2 ::
  "('e, 'p, 'r, 'w) library \<Rightarrow> pystr \<Rightarrow> pystr \<Rightarrow> pystr \<Rightarrow> pystr \<Rightarrow> ('p, 'w) state_flask2 \<Rightarrow>
   ('e exn + 'r) \<times> ('p, 'w) state_flask2" where
  "try_flask2 lib selected_task input_text candidate_labels model_override s =
     (case get_pipeline_flask2 lib selected_task
             (override_flask2 selected_task model_override s) of
        (Inl e, s1) \<Rightarrow> (Inl e, s1)
      | (Inr nlp, s1) \<Rightarrow>
          (if selected_task = sentiment_analysis then
             call_nlp lib nlp (Text input_text) s1
           else if selected_task = summarization then
             call_nlp lib nlp (TextBounded input_text 120 20 False) s1
           else if selected_task = zero_shot_classification then
             (let labels = parse_labels candidate_labels in
              if labels = [] then
                (Inl (ValueError
                   (lit ''Zero-shot requires at least one comma-separated label.'')), s1)
              else call_nlp lib nlp (TextLabels input_text labels) s1)
           else (Inl (ValueError (lit ''Unsupported task: '' @ selected_task)), s1)))"

text \<open>\<^verbatim>\<open>str(e)\<close>: the message of an exception the file raised itself, else the library's.\<close>

fun exn_str :: "('e, 'p, 'r, 'w) library \<Rightarrow> 'e exn \<Rightarrow> pystr" where
  "exn_str lib (ValueError m) = m"
| "exn_str lib (TypeError m) = m"
| "exn_str lib (KeyError k) = exc_str lib (KeyError k)"
| "exn_str lib (LibException x) = exc_str lib (LibException x)"
| "exn_str lib (LibBaseException x) = exc_str lib (LibBaseException x)"

text \<open>
  The \<^verbatim>\<open>except Exception as e\<close> clause of \<^verbatim>\<open>index\<close> (lines 163-164): it logs, then
  evaluates
  \<^verbatim>\<open>str(e) + "\n\n" + traceback.format_exc().splitlines()[-10:]\<close>
  from left to right. The value would become \<^verbatim>\<open>error\<close>; an exception raised here
  leaves the handler.
\<close>

definition except_flask2 ::
  "('e, 'p, 'r, 'w) library \<Rightarrow> 'e exn \<Rightarrow> ('p, 'w) state_flask2 \<Rightarrow>
   ('e exn + str_or_list) \<times> ('p, 'w) state_flask2" where
  "except_flask2 lib e s =
     (let s1 = emit (Logged_error (lit ''Error during pipeline execution:'' @ [10] @
                       format_exc lib e)) s
      in case py_add (Str (exn_str lib e)) (Str [10, 10]) of
           Inl t \<Rightarrow> (Inl t, s1)
         | Inr v \<Rightarrow>
             (case py_add v (StrList (last10 (py_splitlines (format_exc lib e)))) of
                Inl t \<Rightarrow> (Inl t, s1)
              | Inr error \<Rightarrow> (Inr error, s1)))"

text \<open>Line 132: \<^verbatim>\<open>request.form.get("task") or selected_task\<close>.\<close>

definition selected_task_flask2 :: "request \<Rightarrow> pystr" where
  "selected_task_flask2 req =
     (case form req ''task'' of
        None \<Rightarrow> sentiment_analysis
      | Some t \<Rightarrow> if t = [] then sentiment_analysis else t)"

text \<open>\<^verbatim>\<open>index\<close> of flask2.py (lines 123-174).\<close>

definition index_flask2 ::
  "('e, 'p, 'r, 'w) library \<Rightarrow> request \<Rightarrow> ('p, 'w) state_flask2 \<Rightarrow>
   ('e exn + 'r page) \<times> ('p, 'w) state_flask2" where
  "index_flask2 lib req s =
     (if request_method req = POST then
        (let selected_task = selected_task_flask2 req;
             input_text = py_strip (form_get (form req) ''input_text'' []);
             candidate_labels = py_strip (form_get (form req) ''labels'' []);
             model_override = py_strip (form_get (form req) ''model_override'' [])
         in if input_text = [] then
              (Inr (render_flask2 PNone (PStr (lit ''Please provide some input text.''))
                      input_text selected_task candidate_labels model_override), s)
            else
              (case try_flask2 lib selected_task input_text candidate_labels
                      model_override s of
                 (Inr out, s1) \<Rightarrow>
                   (Inr (render_flask2 (PResult out) PNone input_text selected_task
                           candidate_labels model_override), s1)
               | (Inl e, s1) \<Rightarrow>
                   if is_Exception e then
                     (case except_flask2 lib e s1 of
                        (Inl t, s2) \<Rightarrow> (Inl t, s2)
                      | (Inr error, s2) \<Rightarrow>
                          (Inr (render_flask2 PNone (to_pyval error) input_text
                                  selected_task candidate_labels model_override), s2))
                   else (Inl e, s1)))
      else (Inr (render_flask2 PNone PNone [] sentiment_analysis [] []), s))"


section \<open>A library to run the two files on\<close>

text \<open>
  A library for concrete runs: the import succeeds, the constructor gives the model
  name as the pipeline object unless the model is \<open>no-such-model\<close>, a pipeline call
  answers with the name of its model, and the world counts the calls.
\<close>

definition demo_library :: "(nat, pystr, pystr, nat) library" where
  "demo_library =
     \<lparr>import_pipeline = (\<lambda>w. (None, w)),
      pipeline = (\<lambda>task model device w.
        (if model = lit ''no-such-model'' then Inl (LibException 404) else Inr model, w + 1)),
      nlp_call = (\<lambda>p args w. (Inr p, w + 1)),
      format_exc = (\<lambda>e. lit ''Traceback (most recent call last):'' @ [10] @ lit ''Error''),
      exc_str = (\<lambda>e. lit ''Error'')\<rparr>"

definition post :: "(string \<rightharpoonup> pystr) \<Rightarrow> request" where
  "post f = \<lparr>request_method = POST, form = f\<rparr>"



text \<open>A library whose constructor always fails.\<close>

definition failing_library :: "(nat, pystr, pystr, nat) library" where
  "failing_library =
     demo_library\<lparr>pipeline := (\<lambda>task model device w. (Inl (LibException 503), w + 1))\<rparr>"

text \<open>
  The states that runs from the initial states end in: after \<^verbatim>\<open>get_pipeline\<close> has loaded
  the sentiment pipeline, after it has failed to, after it has loaded the zero-shot
  pipeline, and after a request of flask2.py whose model override names a model that
  does not exist.
\<close>

definition loaded_flask :: "(pystr, nat) state_flask" where
  "loaded_flask =
     \<lparr>world = 1,
      trace = [Called_get_pipeline (Some sentiment_analysis),
               Called_pipeline sentiment_analysis distilbert_sst2 None],
      pipelines_cache = [Some sentiment_analysis \<mapsto> distilbert_sst2]\<rparr>"

definition loaded_flask2 :: "(pystr, nat) state_flask2" where
  "loaded_flask2 =
     (initial_flask2 0)
       \<lparr>world := 1,
        trace := [Called_get_pipeline (Some sentiment_analysis),
                  Logged_info (loading_message sentiment_analysis distilbert_sst2),
                  Called_pipeline sentiment_analysis distilbert_sst2 (Some (- 1)),
                  Logged_info (lit ''Pipeline loaded.'')],
        pipelines := [sentiment_analysis \<mapsto> distilbert_sst2],
        transformers_imported := True\<rparr>"

definition failed_flask :: "(pystr, nat) state_flask" where
  "failed_flask =
     \<lparr>world = 1,
      trace = [Called_get_pipeline (Some sentiment_analysis),
               Called_pipeline sentiment_analysis distilbert_sst2 None],
      pipelines_cache = Map.empty\<rparr>"

definition failed_flask2 :: "(pystr, nat) state_flask2" where
  "failed_flask2 =
     (initial_flask2 0)
       \<lparr>world := 1,
        trace := [Called_get_pipeline (Some sentiment_analysis),
                  Logged_info (loading_message sentiment_analysis distilbert_sst2),
                  Called_pipeline sentiment_analysis distilbert_sst2 (Some (- 1)),
                  Logged_error (lit ''Failed to load pipeline:'' @ [10] @
                    format_exc failing_library (LibException 503))],
        transformers_imported := True\<rparr>"

definition zero_shot_flask :: "(pystr, nat) state_flask" where
  "zero_shot_flask =
     \<lparr>world = 1,
      trace = [Called_get_pipeline (Some zero_shot_classification),
               Called_pipeline zero_shot_classification bart_large_mnli None],
      pipelines_cache = [Some zero_shot_classification \<mapsto> bart_large_mnli]\<rparr>"

definition zero_shot_flask2 :: "(pystr, nat) state_flask2" where
  "zero_shot_flask2 =
     (initial_flask2 0)
       \<lparr>world := 1,
        trace := [Called_get_pipeline (Some zero_shot_classification),
                  Logged_info (loading_message zero_shot_classification bart_large_mnli),
                  Called_pipeline zero_shot_classification bart_large_mnli (Some (- 1)),
                  Logged_info (lit ''Pipeline loaded.'')],
        pipelines := [zero_shot_classification \<mapsto> bart_large_mnli],
        transformers_imported := True\<rparr>"

definition overridden_flask2 :: "(pystr, nat) state_flask2" where
  "overridden_flask2 =
     (initial_flask2 0)
       \<lparr>world := 1,
        trace := [Called_get_pipeline (Some sentiment_analysis),
                  Logged_info (loading_message sentiment_analysis (lit ''no-such-model'')),
                  Called_pipeline sentiment_analysis (lit ''no-such-model'') (Some (- 1)),
                  Logged_error (lit ''Failed to load pipeline:'' @ [10] @
                    format_exc demo_library (LibException 404)),
                  Logged_error (lit ''Error during pipeline execution:'' @ [10] @
                    format_exc demo_library (LibException 404))],
        MODEL_CHOICES := (MODEL_CHOICES (initial_flask2 0 :: (pystr, nat) state_flask2))
                           (sentiment_analysis \<mapsto> lit ''no-such-model''),
        transformers_imported := True\<rparr>"


section \<open>Lemmas about the string functions\<close>


lemma py_strip_eq_Nil: "py_strip s = [] \<longleftrightarrow> list_all isspace s"
proof -
  have "py_strip s = [] \<longleftrightarrow> (\<forall>c \<in> set (dropWhile isspace s). isspace c)"
    by (simp add: py_strip_def dropWhile_eq_Nil_conv)
  also have "\<dots> \<longleftrightarrow> dropWhile isspace s = []"
  proof
    assume all: "\<forall>c \<in> set (dropWhile isspace s). isspace c"
    show "dropWhile isspace s = []"
    proof (rule ccontr)
      assume ne: "dropWhile isspace s \<noteq> []"
      then have "\<not> isspace (hd (dropWhile isspace s))" by (rule hd_dropWhile)
      moreover have "hd (dropWhile isspace s) \<in> set (dropWhile isspace s)" using ne by simp
      ultimately show False using all by blast
    qed
  next
    assume "dropWhile isspace s = []"
    then show "\<forall>c \<in> set (dropWhile isspace s). isspace c" by (simp only: set_simps ball_empty)
  qed
  also have "\<dots> \<longleftrightarrow> list_all isspace s"
    by (simp add: dropWhile_eq_Nil_conv list_all_iff)
  finally show ?thesis .
qed

lemma py_split_not_Nil: "py_split sep s \<noteq> []"
  by (induction s) (auto split: list.splits)

lemma py_join_py_split: "py_join sep (py_split sep s) = s"
proof (induction s)
  case Nil
  show ?case by simp
next
  case (Cons c cs)
  obtain f fs where sp: "py_split sep cs = f # fs"
    using py_split_not_Nil[of sep cs] by (cases "py_split sep cs") auto
  show ?case
  proof (cases "c = sep")
    case True
    then show ?thesis using Cons sp by simp
  next
    case False
    then show ?thesis using Cons sp by (cases fs) auto
  qed
qed

lemma py_split_no_sep: "list_all (\<lambda>f. sep \<notin> set f) (py_split sep s)"
  by (induction s) (auto split: list.splits)

lemma py_split_length: "length (py_split sep s) = Suc (count_list s sep)"
  by (induction s) (auto split: list.splits simp: py_split_not_Nil)


lemma py_strip_lr: "py_strip s = rstrip (lstrip s)"
  by (simp add: py_strip_def lstrip_def rstrip_def)

lemma rstrip_Nil [simp]: "rstrip [] = []" by (simp add: rstrip_def)
lemma lstrip_Nil [simp]: "lstrip [] = []" by (simp add: lstrip_def)

lemma rstrip_Cons: "rstrip (c # cs) = (if list_all isspace (c # cs) then [] else c # rstrip cs)"
proof (cases "list_all isspace cs")
  case True
  then have "dropWhile isspace (rev cs) = []" by (simp add: dropWhile_eq_Nil_conv list_all_iff)
  then show ?thesis using True
    by (auto simp add: rstrip_def dropWhile_append list_all_iff)
next
  case False
  then have "dropWhile isspace (rev cs) \<noteq> []" by (simp add: dropWhile_eq_Nil_conv list_all_iff)
  then show ?thesis using False
    by (auto simp add: rstrip_def dropWhile_append list_all_iff)
qed

lemma rstrip_eq_Nil: "rstrip s = [] \<longleftrightarrow> list_all isspace s"
  by (simp add: rstrip_def dropWhile_eq_Nil_conv list_all_iff)

lemma lstrip_Cons: "lstrip (c # cs) = (if isspace c then lstrip cs else c # cs)"
  by (simp add: lstrip_def)

lemma lstrip_all: "list_all isspace s \<Longrightarrow> lstrip s = []"
  by (simp add: lstrip_def dropWhile_eq_Nil_conv list_all_iff)

lemma lstrip_rstrip: "lstrip (rstrip s) = rstrip (lstrip s)"
proof (induction s)
  case Nil
  show ?case by simp
next
  case (Cons c cs)
  show ?case
  proof (cases "list_all isspace (c # cs)")
    case True
    then show ?thesis by (simp add: rstrip_Cons lstrip_all)
  next
    case False
    then show ?thesis using Cons by (auto simp add: rstrip_Cons lstrip_Cons)
  qed
qed

lemma py_split_all_space: "\<not> isspace sep \<Longrightarrow> list_all isspace s \<Longrightarrow> py_split sep s = [s]"
  by (induction s) auto

lemma py_split_lstrip:
  "\<not> isspace sep \<Longrightarrow>
   py_split sep (lstrip s) = (case py_split sep s of [] \<Rightarrow> [] | f # fs \<Rightarrow> lstrip f # fs)"
proof (induction s)
  case Nil
  show ?case by simp
next
  case (Cons c cs)
  obtain f fs where sp: "py_split sep cs = f # fs"
    using py_split_not_Nil[of sep cs] by (cases "py_split sep cs") auto
  show ?case using Cons sp by (auto simp add: lstrip_Cons)
qed

lemma lstrip_lstrip: "lstrip (lstrip s) = lstrip s"
  by (induction s) (auto simp: lstrip_Cons)

lemma map_lstrip_split:
  assumes "\<not> isspace sep"
  shows "map lstrip (py_split sep (lstrip s)) = map lstrip (py_split sep s)"
proof -
  obtain f fs where sp: "py_split sep s = f # fs"
    using py_split_not_Nil[of sep s] by (cases "py_split sep s") auto
  show ?thesis using py_split_lstrip[OF assms, of s] sp by (simp add: lstrip_lstrip)
qed

lemma map_rstrip_split:
  assumes "\<not> isspace sep"
  shows "map rstrip (py_split sep (rstrip s)) = map rstrip (py_split sep s)"
proof (induction s)
  case Nil
  show ?case by simp
next
  case (Cons c cs)
  show ?case
  proof (cases "list_all isspace (c # cs)")
    case True
    with assms have "py_split sep (c # cs) = [c # cs]" by (rule py_split_all_space)
    moreover have "rstrip (c # cs) = []" using True by (simp add: rstrip_eq_Nil)
    ultimately show ?thesis by simp
  next
    case False
    obtain f fs where sp: "py_split sep cs = f # fs"
      using py_split_not_Nil[of sep cs] by (cases "py_split sep cs") auto
    obtain g gs where sq: "py_split sep (rstrip cs) = g # gs"
      using py_split_not_Nil[of sep "rstrip cs"] by (cases "py_split sep (rstrip cs)") auto
    from Cons sp sq have eq: "rstrip g = rstrip f" "map rstrip gs = map rstrip fs" by simp_all
    have "list_all isspace g \<longleftrightarrow> list_all isspace f"
      using eq(1) rstrip_eq_Nil by metis
    then have cg: "rstrip (c # g) = rstrip (c # f)" using eq(1) by (simp add: rstrip_Cons)
    have unfold: "rstrip (c # cs) = c # rstrip cs" using False by (simp add: rstrip_Cons)
    show ?thesis
    proof (cases "c = sep")
      case True
      then show ?thesis using unfold Cons by simp
    next
      case False
      then show ?thesis using unfold sp sq eq(2) cg by simp
    qed
  qed
qed

lemma map_py_strip_split:
  assumes "\<not> isspace sep"
  shows "map py_strip (py_split sep (py_strip s)) = map py_strip (py_split sep s)"
proof -
  have strip1: "py_strip = (\<lambda>x. lstrip (rstrip x))"
    by (rule ext) (simp add: py_strip_lr lstrip_rstrip)
  have strip2: "py_strip = (\<lambda>x. rstrip (lstrip x))"
    by (rule ext) (simp add: py_strip_lr)
  have "map py_strip (py_split sep (py_strip s))
        = map lstrip (map rstrip (py_split sep (rstrip (lstrip s))))"
    by (simp add: strip1 py_strip_lr[symmetric] o_def)
  also have "\<dots> = map lstrip (map rstrip (py_split sep (lstrip s)))"
    by (simp only: map_rstrip_split[OF assms])
  also have "\<dots> = map rstrip (map lstrip (py_split sep (lstrip s)))"
    by (simp add: lstrip_rstrip)
  also have "\<dots> = map rstrip (map lstrip (py_split sep s))"
    by (simp only: map_lstrip_split[OF assms])
  also have "\<dots> = map py_strip (py_split sep s)"
    by (simp add: strip2)
  finally show ?thesis .
qed

lemma not_isspace_comma: "\<not> isspace comma"
  by (simp add: isspace_def comma_def)

lemma concat_map_if:
  "concat (map (\<lambda>x. if f x \<noteq> [] then [f x] else []) xs) = filter (\<lambda>l. l \<noteq> []) (map f xs)"
  by (induction xs) simp_all

lemma parse_labels_alt:
  "parse_labels s = filter (\<lambda>l. l \<noteq> []) (map py_strip (py_split comma s))"
  by (simp only: parse_labels_def concat_map_if)

lemma parse_labels_py_strip: "parse_labels (py_strip s) = parse_labels s"
  by (simp only: parse_labels_alt map_py_strip_split[OF not_isspace_comma])



lemma py_strip_ends:
  assumes "py_strip f \<noteq> []"
  shows "\<not> isspace (hd (py_strip f)) \<and> \<not> isspace (last (py_strip f))"
proof -
  have l: "py_strip f = lstrip (rstrip f)" by (simp add: py_strip_lr lstrip_rstrip)
  have ne1: "dropWhile isspace (rstrip f) \<noteq> []"
    using assms unfolding l lstrip_def .
  have a: "\<not> isspace (hd (py_strip f))"
    using hd_dropWhile[OF ne1] unfolding l lstrip_def .
  have ne: "dropWhile isspace (rev (dropWhile isspace f)) \<noteq> []"
    using assms by (simp add: py_strip_def)
  have "last (py_strip f) = hd (dropWhile isspace (rev (dropWhile isspace f)))"
    using ne by (simp add: py_strip_def last_rev)
  then have b: "\<not> isspace (last (py_strip f))" using hd_dropWhile[OF ne] by simp
  show ?thesis using a b by simp
qed

lemma parse_labels_trimmed:
  "list_all (\<lambda>l. l \<noteq> [] \<and> \<not> isspace (hd l) \<and> \<not> isspace (last l)) (parse_labels s)"
  by (auto simp add: parse_labels_alt list_all_iff dest: py_strip_ends)

lemma parse_labels_blank: "list_all isspace s \<Longrightarrow> parse_labels s = []"
  using py_split_all_space[OF not_isspace_comma, of s]
  by (simp add: parse_labels_alt py_strip_eq_Nil)


section \<open>Running the model on concrete requests\<close>

lemmas lit_defs = lit_def sentiment_analysis_def summarization_def zero_shot_classification_def
  distilbert_sst2_def distilbart_cnn_def bart_large_mnli_def comma_def

lemmas run_defs = index_flask_def index_flask2_def get_pipeline_flask_def get_pipeline_flask2_def
  store_pipeline_flask_def run_flask_def call_pipeline_def call_nlp_def emit_def
  render_flask_def render_flask2_def try_flask2_def except_flask2_def construct_flask2_def
  import_stmt_def initial_flask_def initial_flask2_def demo_library_def post_def form_get_def
  py_strip_def isspace_def parse_labels_def last10_def py_splitlines_def is_linebreak_def
  selected_task_flask2_def override_flask2_def loading_message_def Let_def


section \<open>Lemmas about the two files\<close>

lemma tasks_nonempty:
  "sentiment_analysis \<noteq> []" "summarization \<noteq> []" "zero_shot_classification \<noteq> []"
  by (simp_all add: lit_defs)

lemma tasks_distinct:
  "sentiment_analysis \<noteq> summarization" "sentiment_analysis \<noteq> zero_shot_classification"
  "summarization \<noteq> zero_shot_classification"
  "summarization \<noteq> sentiment_analysis" "zero_shot_classification \<noteq> sentiment_analysis"
  "zero_shot_classification \<noteq> summarization"
  by (simp_all add: lit_defs)

lemma emit_simps [simp]:
  "trace (emit ev s) = trace s @ [ev]"
  "world (emit ev s) = world s"
  by (simp_all add: emit_def)

lemma emit_flask [simp]: "pipelines_cache (emit ev s) = pipelines_cache s"
  by (simp add: emit_def)

lemma emit_flask2 [simp]:
  "pipelines (emit ev s) = pipelines s"
  "MODEL_CHOICES (emit ev s) = MODEL_CHOICES s"
  "transformers_imported (emit ev s) = transformers_imported s"
  by (simp_all add: emit_def)

lemma call_pipeline_flask:
  "call_pipeline lib task model device s = (r, s1) \<Longrightarrow> pipelines_cache s1 = pipelines_cache s"
  by (auto simp add: call_pipeline_def split: prod.splits)

lemma call_pipeline_flask2:
  "call_pipeline lib task model device s = (r, s1) \<Longrightarrow>
   pipelines s1 = pipelines s \<and> MODEL_CHOICES s1 = MODEL_CHOICES s \<and>
   transformers_imported s1 = transformers_imported s"
  by (auto simp add: call_pipeline_def split: prod.splits)

lemma call_pipeline_trace:
  "call_pipeline lib task model device s = (r, s1) \<Longrightarrow>
   trace s1 = trace s @ [Called_pipeline task model device]"
  by (auto simp add: call_pipeline_def split: prod.splits)

lemma call_nlp_flask:
  "call_nlp lib nlp args s = (r, s1) \<Longrightarrow> pipelines_cache s1 = pipelines_cache s"
  by (auto simp add: call_nlp_def split: prod.splits)

lemma call_nlp_flask2:
  "call_nlp lib nlp args s = (r, s1) \<Longrightarrow>
   pipelines s1 = pipelines s \<and> MODEL_CHOICES s1 = MODEL_CHOICES s \<and>
   transformers_imported s1 = transformers_imported s"
  by (auto simp add: call_nlp_def split: prod.splits)

lemma call_nlp_trace:
  "call_nlp lib nlp args s = (r, s1) \<Longrightarrow> trace s1 = trace s @ [Called_nlp nlp args]"
  by (auto simp add: call_nlp_def split: prod.splits)

lemma store_pipeline_flask_raised:
  "store_pipeline_flask lib task model s = (Some e, s1) \<Longrightarrow> pipelines_cache s1 = pipelines_cache s"
  by (auto simp add: store_pipeline_flask_def split: prod.splits sum.splits dest: call_pipeline_flask)

lemma store_pipeline_flask_stored:
  "store_pipeline_flask lib task model s = (None, s1) \<Longrightarrow> pipelines_cache s1 (Some task) \<noteq> None"
  by (auto simp add: store_pipeline_flask_def split: prod.splits sum.splits)

lemma get_pipeline_flask_hit:
  "pipelines_cache t task = Some p \<Longrightarrow>
   get_pipeline_flask lib task t = (Inr p, emit (Called_get_pipeline task) t)"
  by (simp add: get_pipeline_flask_def)

lemma get_pipeline_flask_returned:
  "get_pipeline_flask lib task s = (Inr p, s1) \<Longrightarrow> pipelines_cache s1 task = Some p"
  by (auto simp add: get_pipeline_flask_def Let_def split: prod.splits option.splits if_splits)

lemma get_pipeline_flask_raised:
  "get_pipeline_flask lib task s = (Inl e, s1) \<Longrightarrow> pipelines_cache s1 = pipelines_cache s"
  by (auto simp add: get_pipeline_flask_def Let_def
      split: prod.splits option.splits if_splits
      dest: store_pipeline_flask_raised store_pipeline_flask_stored)

lemma import_stmt_keeps:
  "import_stmt lib s = (r, s1) \<Longrightarrow>
   pipelines s1 = pipelines s \<and> MODEL_CHOICES s1 = MODEL_CHOICES s \<and> trace s1 = trace s"
  by (auto simp add: import_stmt_def split: prod.splits option.splits if_splits)

lemma import_stmt_done:
  "import_stmt lib s = (None, s1) \<Longrightarrow> transformers_imported s1"
  by (auto simp add: import_stmt_def split: prod.splits option.splits if_splits)

lemma import_stmt_again:
  "transformers_imported s \<Longrightarrow> import_stmt lib s = (None, s)"
  by (simp add: import_stmt_def)

lemma construct_flask2_keeps:
  "construct_flask2 lib task model s = (r, s1) \<Longrightarrow>
   pipelines s1 = pipelines s \<and> MODEL_CHOICES s1 = MODEL_CHOICES s \<and>
   transformers_imported s1 = transformers_imported s"
  by (auto simp add: construct_flask2_def split: if_splits dest: call_pipeline_flask2)

lemma get_pipeline_flask2_hit:
  "pipelines t task = Some p \<Longrightarrow> transformers_imported t \<Longrightarrow>
   get_pipeline_flask2 lib task t = (Inr p, emit (Called_get_pipeline (Some task)) t)"
  by (simp add: get_pipeline_flask2_def import_stmt_again)

lemma get_pipeline_flask2_returned:
  assumes "get_pipeline_flask2 lib task s = (Inr p, s1)"
  shows "pipelines s1 task = Some p \<and> transformers_imported s1"
proof -
  obtain r sa where imp: "import_stmt lib (emit (Called_get_pipeline (Some task)) s) = (r, sa)"
    by (cases "import_stmt lib (emit (Called_get_pipeline (Some task)) s)")
  with assms have r: "r = None" by (auto simp add: get_pipeline_flask2_def split: option.splits)
  have imported: "transformers_imported sa" using imp r by (auto dest: import_stmt_done)
  show ?thesis
    using assms imp r imported
    by (auto simp add: get_pipeline_flask2_def Let_def
        split: option.splits if_splits prod.splits sum.splits dest: construct_flask2_keeps)
qed

lemma get_pipeline_flask2_raised:
  assumes "get_pipeline_flask2 lib task s = (Inl e, s1)"
  shows "pipelines s1 = pipelines s"
proof -
  obtain r sa where imp: "import_stmt lib (emit (Called_get_pipeline (Some task)) s) = (r, sa)"
    by (cases "import_stmt lib (emit (Called_get_pipeline (Some task)) s)")
  have keep: "pipelines sa = pipelines s" using import_stmt_keeps[OF imp] by simp
  show ?thesis
    using assms imp keep
    by (auto simp add: get_pipeline_flask2_def Let_def
        split: option.splits if_splits prod.splits sum.splits dest: construct_flask2_keeps)
qed

lemma get_pipeline_flask2_MODEL_CHOICES:
  assumes "get_pipeline_flask2 lib task s = (r, s1)"
  shows "MODEL_CHOICES s1 = MODEL_CHOICES s"
proof -
  obtain r' sa where imp: "import_stmt lib (emit (Called_get_pipeline (Some task)) s) = (r', sa)"
    by (cases "import_stmt lib (emit (Called_get_pipeline (Some task)) s)")
  have keep: "MODEL_CHOICES sa = MODEL_CHOICES s" using import_stmt_keeps[OF imp] by simp
  show ?thesis
    using assms imp keep
    by (auto simp add: get_pipeline_flask2_def Let_def
        split: option.splits if_splits prod.splits sum.splits dest: construct_flask2_keeps)
qed

lemma except_flask2_raises:
  "except_flask2 lib e s =
     (Inl (TypeError (lit ''can only concatenate str (not '' @ [34] @ lit ''list'' @ [34] @
                      lit '') to str'')),
      emit (Logged_error (lit ''Error during pipeline execution:'' @ [10] @ format_exc lib e)) s)"
  by (simp add: except_flask2_def)

lemma override_flask2_keeps [simp]:
  "pipelines (override_flask2 t m s) = pipelines s"
  "transformers_imported (override_flask2 t m s) = transformers_imported s"
  "trace (override_flask2 t m s) = trace s"
  "world (override_flask2 t m s) = world s"
  by (simp_all add: override_flask2_def)

lemma try_flask2_raised_in_get_pipeline:
  "get_pipeline_flask2 lib task (override_flask2 task ov s) = (Inl e, s1) \<Longrightarrow>
   try_flask2 lib task input labels ov s = (Inl e, s1)"
  by (simp add: try_flask2_def)

lemma index_flask2_raised_in_get_pipeline:
  assumes "request_method req = POST"
    and "py_strip (form_get (form req) ''input_text'' []) \<noteq> []"
    and "get_pipeline_flask2 lib (selected_task_flask2 req)
           (override_flask2 (selected_task_flask2 req)
              (py_strip (form_get (form req) ''model_override'' [])) s) = (Inl e, s1)"
  shows "pipelines (snd (index_flask2 lib req s)) = pipelines s"
proof -
  have "pipelines s1 = pipelines s"
    using get_pipeline_flask2_raised[OF assms(3)] by simp
  then show ?thesis
    using assms try_flask2_raised_in_get_pipeline[OF assms(3)]
    by (simp add: index_flask2_def Let_def except_flask2_raises)
qed

lemma get_pipeline_flask2_construct_raised:
  assumes "fst (import_stmt lib (emit (Called_get_pipeline (Some task)) s)) = None"
    and "pipelines s task = None"
    and "MODEL_CHOICES s task = Some model"
    and "model \<noteq> []"
    and "fst (construct_flask2 lib task model
           (emit (Logged_info (loading_message task model))
              (snd (import_stmt lib (emit (Called_get_pipeline (Some task)) s))))) = Inl e"
  shows "fst (get_pipeline_flask2 lib task s) = Inl e"
proof -
  obtain sa where imp: "import_stmt lib (emit (Called_get_pipeline (Some task)) s) = (None, sa)"
    using assms(1) by (cases "import_stmt lib (emit (Called_get_pipeline (Some task)) s)") auto
  have sa: "pipelines sa task = None" "MODEL_CHOICES sa task = Some model"
    using import_stmt_keeps[OF imp] assms(2,3) by simp_all
  obtain sb where con: "construct_flask2 lib task model
      (emit (Logged_info (loading_message task model)) sa) = (Inl e, sb)"
    using assms(5) imp
    by (cases "construct_flask2 lib task model (emit (Logged_info (loading_message task model)) sa)")
       auto
  show ?thesis using imp sa con assms(4) by (simp add: get_pipeline_flask2_def)
qed

lemma index_flask_raised_in_get_pipeline:
  assumes "request_method req = POST"
    and "py_strip (form_get (form req) ''input_text'' []) \<noteq> []"
    and "get_pipeline_flask lib (form req ''task'') s = (Inl e, s1)"
  shows "index_flask lib req s = (Inl e, s1)"
  using assms by (simp add: index_flask_def Let_def)

lemma get_pipeline_flask_unknown:
  assumes "task \<noteq> Some sentiment_analysis" "task \<noteq> Some summarization"
    "task \<noteq> Some zero_shot_classification" "pipelines_cache s task = None"
  shows "get_pipeline_flask lib task s = (Inl (KeyError task), emit (Called_get_pipeline task) s)"
  using assms by (simp add: get_pipeline_flask_def Let_def)

lemma import_stmt_ok:
  assumes "transformers_imported s \<or> fst (import_pipeline lib (world s)) = None"
  shows "\<exists>s1. import_stmt lib s = (None, s1) \<and> pipelines s1 = pipelines s \<and>
          MODEL_CHOICES s1 = MODEL_CHOICES s \<and> trace s1 = trace s"
  using assms by (auto simp add: import_stmt_def split: prod.splits option.splits)

lemma get_pipeline_flask2_unknown:
  assumes "task \<noteq> sentiment_analysis" "task \<noteq> summarization"
    "task \<noteq> zero_shot_classification" "pipelines s task = None"
    "transformers_imported s \<or> fst (import_pipeline lib (world s)) = None"
  shows "fst (get_pipeline_flask2 lib task s) =
           Inl (ValueError
             (if (case MODEL_CHOICES s task of None \<Rightarrow> [] | Some m \<Rightarrow> m) = []
              then lit ''Unknown task: '' @ task else lit ''Unsupported task'')) \<and>
         pipelines (snd (get_pipeline_flask2 lib task s)) = pipelines s \<and>
         filter is_library_call (trace (snd (get_pipeline_flask2 lib task s))) =
           filter is_library_call (trace s)"
proof -
  have "transformers_imported (emit (Called_get_pipeline (Some task)) s) \<or>
        fst (import_pipeline lib (world (emit (Called_get_pipeline (Some task)) s))) = None"
    using assms(5) by simp
  from import_stmt_ok[OF this] obtain s1 where
    imp: "import_stmt lib (emit (Called_get_pipeline (Some task)) s) = (None, s1)"
    and s1: "pipelines s1 = pipelines s" "MODEL_CHOICES s1 = MODEL_CHOICES s"
      "trace s1 = trace s @ [Called_get_pipeline (Some task)]"
    by auto
  show ?thesis
    using imp s1 assms(1-4)
    by (simp add: get_pipeline_flask2_def Let_def construct_flask2_def)
qed


lemma import_stmt_trace: "import_stmt lib s = (r, s1) \<Longrightarrow> trace s1 = trace s"
  by (auto simp add: import_stmt_def split: prod.splits option.splits if_splits)

lemma construct_flask2_nlp_calls:
  "construct_flask2 lib task model s = (r, s1) \<Longrightarrow>
   filter is_nlp_call (trace s1) = filter is_nlp_call (trace s)"
  by (auto simp add: construct_flask2_def split: if_splits dest: call_pipeline_trace)

lemma get_pipeline_flask2_nlp_calls:
  assumes "get_pipeline_flask2 lib task s = (r, s1)"
  shows "filter is_nlp_call (trace s1) = filter is_nlp_call (trace s)"
proof -
  obtain r' sa where imp: "import_stmt lib (emit (Called_get_pipeline (Some task)) s) = (r', sa)"
    by (cases "import_stmt lib (emit (Called_get_pipeline (Some task)) s)")
  have keep: "filter is_nlp_call (trace sa) = filter is_nlp_call (trace s)"
    using import_stmt_trace[OF imp] by simp
  show ?thesis
    using assms imp keep
    by (auto simp add: get_pipeline_flask2_def Let_def
        split: option.splits if_splits prod.splits sum.splits dest!: construct_flask2_nlp_calls)
qed

lemma override_flask2_MODEL_CHOICES:
  "m \<noteq> [] \<Longrightarrow> MODEL_CHOICES (override_flask2 t m s) = (MODEL_CHOICES s)(t \<mapsto> m)"
  "MODEL_CHOICES (override_flask2 t [] s) = MODEL_CHOICES s"
  by (simp_all add: override_flask2_def)

lemma try_flask2_MODEL_CHOICES:
  assumes "try_flask2 lib task input labels ov s = (r, s1)"
  shows "MODEL_CHOICES s1 = MODEL_CHOICES (override_flask2 task ov s)"
proof -
  obtain r' sa where gp: "get_pipeline_flask2 lib task (override_flask2 task ov s) = (r', sa)"
    by (cases "get_pipeline_flask2 lib task (override_flask2 task ov s)")
  have keep: "MODEL_CHOICES sa = MODEL_CHOICES (override_flask2 task ov s)"
    using get_pipeline_flask2_MODEL_CHOICES[OF gp] .
  show ?thesis
    using assms gp keep
    by (auto simp add: try_flask2_def Let_def split: sum.splits if_splits dest: call_nlp_flask2)
qed

lemma index_flask2_MODEL_CHOICES:
  "MODEL_CHOICES (snd (index_flask2 lib req s)) =
     (if request_method req = POST \<and> py_strip (form_get (form req) ''input_text'' []) \<noteq> []
      then MODEL_CHOICES (override_flask2 (selected_task_flask2 req)
             (py_strip (form_get (form req) ''model_override'' [])) s)
      else MODEL_CHOICES s)"
proof -
  let ?body = "try_flask2 lib (selected_task_flask2 req)
      (py_strip (form_get (form req) ''input_text'' []))
      (py_strip (form_get (form req) ''labels'' []))
      (py_strip (form_get (form req) ''model_override'' [])) s"
  obtain r s1 where body: "?body = (r, s1)" by (cases ?body)
  note keep = try_flask2_MODEL_CHOICES[OF body]
  show ?thesis
    using body keep
    by (simp add: index_flask2_def Let_def except_flask2_raises split: sum.splits)
qed

lemma get_pipeline_flask2_constructs:
  assumes "task = sentiment_analysis \<or> task = summarization \<or> task = zero_shot_classification"
    and "pipelines s task = None"
    and "MODEL_CHOICES s task = Some model"
    and "model \<noteq> []"
    and "transformers_imported s \<or> fst (import_pipeline lib (world s)) = None"
  shows "trace (snd (get_pipeline_flask2 lib task s)) =
           trace s @
           [Called_get_pipeline (Some task),
            Logged_info (loading_message task model),
            Called_pipeline task model (Some (- 1))] @
           (case fst (get_pipeline_flask2 lib task s) of
              Inr p \<Rightarrow> [Logged_info (lit ''Pipeline loaded.'')]
            | Inl e \<Rightarrow>
                if is_Exception e then
                  [Logged_error (lit ''Failed to load pipeline:'' @ [10] @ format_exc lib e)]
                else [])"
proof -
  have "transformers_imported (emit (Called_get_pipeline (Some task)) s) \<or>
        fst (import_pipeline lib (world (emit (Called_get_pipeline (Some task)) s))) = None"
    using assms(5) by simp
  from import_stmt_ok[OF this] obtain sa where
    imp: "import_stmt lib (emit (Called_get_pipeline (Some task)) s) = (None, sa)"
    and sa: "pipelines sa = pipelines s" "MODEL_CHOICES sa = MODEL_CHOICES s"
      "trace sa = trace s @ [Called_get_pipeline (Some task)]"
    by auto
  obtain r sb where con: "construct_flask2 lib task model
      (emit (Logged_info (loading_message task model)) sa) = (r, sb)"
    by (cases "construct_flask2 lib task model (emit (Logged_info (loading_message task model)) sa)")
  have "call_pipeline lib task model (Some (- 1))
          (emit (Logged_info (loading_message task model)) sa) = (r, sb)"
    using con assms(1) by (auto simp add: construct_flask2_def tasks_distinct)
  then have "trace sb = trace (emit (Logged_info (loading_message task model)) sa) @
          [Called_pipeline task model (Some (- 1))]"
    by (rule call_pipeline_trace)
  then have sb: "trace sb =
      trace s @ [Called_get_pipeline (Some task), Logged_info (loading_message task model),
                 Called_pipeline task model (Some (- 1))]"
    using sa(3) by simp
  show ?thesis
    using imp sa(1,2) con sb assms(2,3,4)
    by (cases r) (simp_all add: get_pipeline_flask2_def)
qed


section \<open>Empty input text (claim C1)\<close>

text \<open>
  Claim C1, as amended. For every POST request whose \<^verbatim>\<open>input_text\<close> field is missing,
  empty or made of whitespace only, neither file calls \<^verbatim>\<open>get_pipeline\<close>, the constructor
  or a pipeline: the state, trace included, is returned as it was. flask2.py renders
  the error \<^verbatim>\<open>Please provide some input text.\<close> and no result. flask.py has no error
  variable at all: it renders the page with no result and no error.
\<close>

theorem blank_input_no_inference:
  assumes "request_method req = POST"
    and "list_all isspace (form_get (form req) ''input_text'' [])"
  shows "index_flask lib req s =
           (Inr (render_flask PNone (form_get (form req) ''input_text'' [])
                   (task_val (form req ''task'')) (form_get (form req) ''labels'' [])), s) \<and>
         index_flask2 lib req s2 =
           (Inr (render_flask2 PNone (PStr (lit ''Please provide some input text.'')) []
                   (selected_task_flask2 req) (py_strip (form_get (form req) ''labels'' []))
                   (py_strip (form_get (form req) ''model_override'' []))), s2)"
proof -
  have blank: "py_strip (form_get (form req) ''input_text'' []) = []"
    using assms(2) by (simp add: py_strip_eq_Nil)
  show ?thesis using assms(1) blank by (simp add: index_flask_def index_flask2_def Let_def)
qed

theorem blank_input_no_inference_witness:
  "request_method (post [''task'' \<mapsto> sentiment_analysis, ''input_text'' \<mapsto> lit ''  '']) = POST \<and>
   list_all isspace
     (form_get (form (post [''task'' \<mapsto> sentiment_analysis, ''input_text'' \<mapsto> lit ''  '']))
        ''input_text'' []) \<and>
   index_flask demo_library
     (post [''task'' \<mapsto> sentiment_analysis, ''input_text'' \<mapsto> lit ''  '']) (initial_flask 0) =
     (Inr (render_flask PNone (lit ''  '') (PStr sentiment_analysis) []), initial_flask 0) \<and>
   index_flask2 demo_library
     (post [''task'' \<mapsto> sentiment_analysis, ''input_text'' \<mapsto> lit ''  '']) (initial_flask2 0) =
     (Inr (render_flask2 PNone (PStr (lit ''Please provide some input text.'')) []
             sentiment_analysis [] []), initial_flask2 0)"
proof -
  let ?req = "post [''task'' \<mapsto> sentiment_analysis, ''input_text'' \<mapsto> lit ''  '']"
  have m: "request_method ?req = POST" by (simp add: post_def)
  have b: "list_all isspace (form_get (form ?req) ''input_text'' [])"
    by (simp add: post_def form_get_def lit_def isspace_def)
  show ?thesis
    using m b blank_input_no_inference [OF m b, of demo_library "initial_flask 0" "initial_flask2 0"]
    by (simp add: post_def form_get_def selected_task_flask2_def lit_defs py_strip_def)
qed

text \<open>
  The claim as stated fails on flask.py: for an empty \<^verbatim>\<open>input_text\<close> the page it renders
  has the four variables below and no error among them.
\<close>

theorem blank_input_flask_counterexample:
  "fst (index_flask demo_library (post [''task'' \<mapsto> sentiment_analysis, ''input_text'' \<mapsto> []])
          (initial_flask 0)) =
     Inr [(''result'', PNone), (''input_text'', PStr []),
          (''selected_task'', PStr sentiment_analysis), (''candidate_labels'', PStr [])] \<and>
   map_of [(''result'', PNone :: pystr pyval), (''input_text'', PStr []),
           (''selected_task'', PStr sentiment_analysis), (''candidate_labels'', PStr [])]
     ''error'' = None"
  by (simp add: run_defs)


section \<open>Unknown task identifiers (claim C2)\<close>

text \<open>
  Claim C2, as amended. Take a POST request with input text that is not blank and a task
  outside \<^verbatim>\<open>sentiment-analysis\<close>, \<^verbatim>\<open>summarization\<close>, \<^verbatim>\<open>zero-shot-classification\<close> that
  is not in the cache. flask.py has no error handling: \<^verbatim>\<open>get_pipeline\<close> raises \<open>KeyError\<close>
  on its last line and the exception leaves \<^verbatim>\<open>index\<close>; nothing was constructed, called or
  stored. In flask2.py, when the import of transformers succeeds, \<^verbatim>\<open>get_pipeline\<close> raises
  \<open>ValueError\<close> inside the \<^verbatim>\<open>try\<close> block of \<^verbatim>\<open>index\<close> (\<^verbatim>\<open>Unknown task: ...\<close>, or
  \<^verbatim>\<open>Unsupported task\<close> when \<^verbatim>\<open>MODEL_CHOICES\<close> has an entry for the task, as after a model
  override), with no constructor or pipeline call and the cache as before. What the
  \<^verbatim>\<open>except\<close> clause does with the exception is the subject of claim C3.
\<close>

theorem unknown_task_raises:
  assumes "request_method req = POST"
    and "py_strip (form_get (form req) ''input_text'' []) \<noteq> []"
  shows
   "(form req ''task'' \<noteq> Some sentiment_analysis \<longrightarrow> form req ''task'' \<noteq> Some summarization \<longrightarrow>
     form req ''task'' \<noteq> Some zero_shot_classification \<longrightarrow>
     pipelines_cache s (form req ''task'') = None \<longrightarrow>
     index_flask lib req s =
       (Inl (KeyError (form req ''task'')), emit (Called_get_pipeline (form req ''task'')) s)) \<and>
    (selected_task_flask2 req \<noteq> sentiment_analysis \<longrightarrow>
     selected_task_flask2 req \<noteq> summarization \<longrightarrow>
     selected_task_flask2 req \<noteq> zero_shot_classification \<longrightarrow>
     pipelines s2 (selected_task_flask2 req) = None \<longrightarrow>
     (transformers_imported s2 \<or> fst (import_pipeline lib (world s2)) = None) \<longrightarrow>
     fst (try_flask2 lib (selected_task_flask2 req)
            (py_strip (form_get (form req) ''input_text'' []))
            (py_strip (form_get (form req) ''labels'' []))
            (py_strip (form_get (form req) ''model_override'' [])) s2) =
       Inl (ValueError
         (if (case MODEL_CHOICES
                     (override_flask2 (selected_task_flask2 req)
                        (py_strip (form_get (form req) ''model_override'' [])) s2)
                     (selected_task_flask2 req) of
                None \<Rightarrow> [] | Some m \<Rightarrow> m) = []
          then lit ''Unknown task: '' @ selected_task_flask2 req
          else lit ''Unsupported task'')) \<and>
     pipelines (snd (try_flask2 lib (selected_task_flask2 req)
            (py_strip (form_get (form req) ''input_text'' []))
            (py_strip (form_get (form req) ''labels'' []))
            (py_strip (form_get (form req) ''model_override'' [])) s2)) = pipelines s2 \<and>
     filter is_library_call (trace (snd (try_flask2 lib (selected_task_flask2 req)
            (py_strip (form_get (form req) ''input_text'' []))
            (py_strip (form_get (form req) ''labels'' []))
            (py_strip (form_get (form req) ''model_override'' [])) s2))) =
       filter is_library_call (trace s2))"
proof (intro conjI impI)
  assume "form req ''task'' \<noteq> Some sentiment_analysis" "form req ''task'' \<noteq> Some summarization"
    "form req ''task'' \<noteq> Some zero_shot_classification"
    "pipelines_cache s (form req ''task'') = None"
  then show "index_flask lib req s =
       (Inl (KeyError (form req ''task'')), emit (Called_get_pipeline (form req ''task'')) s)"
    using assms by (simp add: index_flask_def Let_def get_pipeline_flask_unknown)
next
  let ?task = "selected_task_flask2 req"
  let ?ov = "py_strip (form_get (form req) ''model_override'' [])"
  let ?s = "override_flask2 ?task ?ov s2"
  let ?body = "try_flask2 lib ?task (py_strip (form_get (form req) ''input_text'' []))
            (py_strip (form_get (form req) ''labels'' [])) ?ov s2"
  assume unknown: "?task \<noteq> sentiment_analysis" "?task \<noteq> summarization"
    "?task \<noteq> zero_shot_classification"
    and miss: "pipelines s2 ?task = None"
    and imp: "transformers_imported s2 \<or> fst (import_pipeline lib (world s2)) = None"
  have miss': "pipelines ?s ?task = None" using miss by simp
  have imp': "transformers_imported ?s \<or> fst (import_pipeline lib (world ?s)) = None"
    using imp by simp
  note gp = get_pipeline_flask2_unknown[OF unknown miss' imp']
  obtain e s3 where raised: "get_pipeline_flask2 lib ?task ?s = (Inl e, s3)"
    using gp by (cases "get_pipeline_flask2 lib ?task ?s") auto
  have tr: "?body = (Inl e, s3)" using raised by (rule try_flask2_raised_in_get_pipeline)
  show "fst ?body = Inl (ValueError
         (if (case MODEL_CHOICES ?s ?task of None \<Rightarrow> [] | Some m \<Rightarrow> m) = []
          then lit ''Unknown task: '' @ ?task else lit ''Unsupported task''))"
    using gp raised tr by simp
  show "pipelines (snd ?body) = pipelines s2" using gp raised tr by simp
  show "filter is_library_call (trace (snd ?body)) = filter is_library_call (trace s2)"
    using gp raised tr by simp
qed

theorem unknown_task_raises_witness:
  "request_method (post [''task'' \<mapsto> lit ''translation'', ''input_text'' \<mapsto> lit ''hello'']) = POST \<and>
   py_strip (form_get (form (post [''task'' \<mapsto> lit ''translation'', ''input_text'' \<mapsto> lit ''hello'']))
     ''input_text'' []) \<noteq> [] \<and>
   index_flask demo_library
     (post [''task'' \<mapsto> lit ''translation'', ''input_text'' \<mapsto> lit ''hello'']) (initial_flask 0) =
     (Inl (KeyError (Some (lit ''translation''))),
      emit (Called_get_pipeline (Some (lit ''translation''))) (initial_flask 0)) \<and>
   fst (try_flask2 demo_library (lit ''translation'') (lit ''hello'') [] [] (initial_flask2 0)) =
     Inl (ValueError (lit ''Unknown task: translation'')) \<and>
   pipelines (snd (try_flask2 demo_library (lit ''translation'') (lit ''hello'') [] []
     (initial_flask2 0))) = pipelines (initial_flask2 0 :: (pystr, nat) state_flask2) \<and>
   filter is_library_call
     (trace (snd (try_flask2 demo_library (lit ''translation'') (lit ''hello'') [] []
        (initial_flask2 0)))) = []"
proof -
  let ?req = "post [''task'' \<mapsto> lit ''translation'', ''input_text'' \<mapsto> lit ''hello'']"
  have m: "request_method ?req = POST" by (simp add: post_def)
  have b: "py_strip (form_get (form ?req) ''input_text'' []) \<noteq> []"
    by (simp add: post_def form_get_def lit_def py_strip_def isspace_def)
  have f: "form ?req ''task'' = Some (lit ''translation'')"
    "selected_task_flask2 ?req = lit ''translation''"
    "py_strip (form_get (form ?req) ''input_text'' []) = lit ''hello''"
    "py_strip (form_get (form ?req) ''labels'' []) = []"
    "py_strip (form_get (form ?req) ''model_override'' []) = []"
    by (simp_all add: post_def form_get_def lit_def py_strip_def isspace_def
        selected_task_flask2_def)
  have u: "lit ''translation'' \<noteq> sentiment_analysis" "lit ''translation'' \<noteq> summarization"
    "lit ''translation'' \<noteq> zero_shot_classification"
    by (simp_all add: lit_defs)
  have c: "pipelines_cache (initial_flask 0 :: (pystr, nat) state_flask) (Some (lit ''translation'')) = None"
    "pipelines (initial_flask2 0 :: (pystr, nat) state_flask2) (lit ''translation'') = None"
    by (simp_all add: initial_flask_def initial_flask2_def)
  have i: "transformers_imported (initial_flask2 0 :: (pystr, nat) state_flask2) \<or>
           fst (import_pipeline demo_library (world (initial_flask2 0 :: (pystr, nat) state_flask2))) = None"
    by (simp add: demo_library_def)
  have mc: "MODEL_CHOICES (override_flask2 (lit ''translation'') [] (initial_flask2 0 :: (pystr, nat) state_flask2))
              (lit ''translation'') = None"
    by (simp add: override_flask2_def initial_flask2_def lit_defs)
  have t: "trace (initial_flask2 0 :: (pystr, nat) state_flask2) = []"
    by (simp add: initial_flask2_def)
  have msg: "lit ''Unknown task: '' @ lit ''translation'' = lit ''Unknown task: translation''"
    by (simp add: lit_def)
  show ?thesis
    using m b unknown_task_raises [OF m b, of "initial_flask 0" demo_library "initial_flask2 0"]
    by (simp add: f u c i mc t msg)
qed

text \<open>
  The claim as stated fails on flask.py: the unknown task \<^verbatim>\<open>translation\<close> makes \<^verbatim>\<open>index\<close>
  end with an uncaught \<open>KeyError\<close> instead of a page.
\<close>

theorem unknown_task_flask_counterexample:
  "fst (index_flask demo_library
          (post [''task'' \<mapsto> lit ''translation'', ''input_text'' \<mapsto> lit ''hello''])
          (initial_flask 0)) = Inl (KeyError (Some (lit ''translation'')))"
  by (simp add: run_defs lit_defs)


section \<open>The except clause of flask2.py (claim C3)\<close>

text \<open>
  Claim C3 says that an exception from loading or inference is caught, logged and
  rendered as its message plus the tail of the trace. The code does catch and log, but
  line 164 then adds a list (\<^verbatim>\<open>splitlines()[-10:]\<close>) to a string, which raises
  \<open>TypeError\<close> inside the \<^verbatim>\<open>except\<close> clause: whenever the \<^verbatim>\<open>try\<close> block raises an
  \<^verbatim>\<open>Exception\<close>, \<^verbatim>\<open>index\<close> ends with that \<open>TypeError\<close> and renders no page.
\<close>

theorem except_clause_raises_TypeError:
  assumes "request_method req = POST"
    and "py_strip (form_get (form req) ''input_text'' []) \<noteq> []"
    and "try_flask2 lib (selected_task_flask2 req)
           (py_strip (form_get (form req) ''input_text'' []))
           (py_strip (form_get (form req) ''labels'' []))
           (py_strip (form_get (form req) ''model_override'' [])) s = (Inl e, s1)"
    and "is_Exception e"
  shows "index_flask2 lib req s =
           (Inl (TypeError (lit ''can only concatenate str (not '' @ [34] @ lit ''list'' @ [34] @
                            lit '') to str'')),
            emit (Logged_error (lit ''Error during pipeline execution:'' @ [10] @
                    format_exc lib e)) s1)"
  using assms by (simp add: index_flask2_def Let_def except_flask2_raises)

theorem except_clause_raises_TypeError_witness:
  "request_method (post [''task'' \<mapsto> lit ''translation'', ''input_text'' \<mapsto> lit ''hello'']) = POST \<and>
   py_strip (form_get (form (post [''task'' \<mapsto> lit ''translation'', ''input_text'' \<mapsto> lit ''hello'']))
     ''input_text'' []) \<noteq> [] \<and>
   fst (try_flask2 demo_library (lit ''translation'') (lit ''hello'') [] [] (initial_flask2 0)) =
     Inl (ValueError (lit ''Unknown task: translation'')) \<and>
   is_Exception (ValueError (lit ''Unknown task: translation'') :: nat exn) \<and>
   fst (index_flask2 demo_library
          (post [''task'' \<mapsto> lit ''translation'', ''input_text'' \<mapsto> lit ''hello''])
          (initial_flask2 0)) =
     Inl (TypeError (lit ''can only concatenate str (not '' @ [34] @ lit ''list'' @ [34] @
                     lit '') to str''))"
proof -
  let ?req = "post [''task'' \<mapsto> lit ''translation'', ''input_text'' \<mapsto> lit ''hello'']"
  let ?s1 = "snd (try_flask2 demo_library (lit ''translation'') (lit ''hello'') [] []
                (initial_flask2 0))"
  have m: "request_method ?req = POST" by (simp add: post_def)
  have b: "py_strip (form_get (form ?req) ''input_text'' []) \<noteq> []"
    by (simp add: post_def form_get_def lit_def py_strip_def isspace_def)
  have f: "selected_task_flask2 ?req = lit ''translation''"
    "py_strip (form_get (form ?req) ''input_text'' []) = lit ''hello''"
    "py_strip (form_get (form ?req) ''labels'' []) = []"
    "py_strip (form_get (form ?req) ''model_override'' []) = []"
    by (simp_all add: post_def form_get_def lit_def py_strip_def isspace_def
        selected_task_flask2_def)
  have t: "fst (try_flask2 demo_library (lit ''translation'') (lit ''hello'') [] []
             (initial_flask2 0)) = Inl (ValueError (lit ''Unknown task: translation''))"
    by (simp add: run_defs lit_defs)
  then have t': "try_flask2 demo_library (selected_task_flask2 ?req)
           (py_strip (form_get (form ?req) ''input_text'' []))
           (py_strip (form_get (form ?req) ''labels'' []))
           (py_strip (form_get (form ?req) ''model_override'' [])) (initial_flask2 0) =
         (Inl (ValueError (lit ''Unknown task: translation'')), ?s1)"
    by (simp add: f prod_eq_iff)
  have x: "is_Exception (ValueError (lit ''Unknown task: translation'') :: nat exn)" by simp
  show ?thesis
    using m b t x except_clause_raises_TypeError [OF m b t' x] by simp
qed


section \<open>Zero-shot classification without labels (claim C4)\<close>

text \<open>
  Claim C4, as amended. Take a POST request with input text that is not blank and a
  \<^verbatim>\<open>labels\<close> field that holds no label (missing, empty, whitespace, or commas and
  whitespace only). In flask2.py with the task \<^verbatim>\<open>zero-shot-classification\<close> the \<^verbatim>\<open>try\<close>
  block of \<^verbatim>\<open>index\<close> ends with an exception and without any pipeline call; when
  \<^verbatim>\<open>get_pipeline\<close> has returned, the exception is the \<open>ValueError\<close> of line 156. flask.py
  has no such check: when \<^verbatim>\<open>get_pipeline\<close> has returned, the pipeline is called with an
  empty list of candidate labels.
\<close>

theorem zero_shot_without_labels:
  assumes "request_method req = POST"
    and "py_strip (form_get (form req) ''input_text'' []) \<noteq> []"
    and "parse_labels (form_get (form req) ''labels'' []) = []"
  shows
   "(selected_task_flask2 req = zero_shot_classification \<longrightarrow>
       isl (fst (try_flask2 lib zero_shot_classification
                   (py_strip (form_get (form req) ''input_text'' []))
                   (py_strip (form_get (form req) ''labels'' []))
                   (py_strip (form_get (form req) ''model_override'' [])) s2)) \<and>
       filter is_nlp_call (trace (snd (try_flask2 lib zero_shot_classification
                   (py_strip (form_get (form req) ''input_text'' []))
                   (py_strip (form_get (form req) ''labels'' []))
                   (py_strip (form_get (form req) ''model_override'' [])) s2))) =
         filter is_nlp_call (trace s2) \<and>
       (get_pipeline_flask2 lib zero_shot_classification
          (override_flask2 zero_shot_classification
             (py_strip (form_get (form req) ''model_override'' [])) s2) = (Inr nlp2, s3) \<longrightarrow>
        try_flask2 lib zero_shot_classification
          (py_strip (form_get (form req) ''input_text'' []))
          (py_strip (form_get (form req) ''labels'' []))
          (py_strip (form_get (form req) ''model_override'' [])) s2 =
          (Inl (ValueError (lit ''Zero-shot requires at least one comma-separated label.'')),
           s3))) \<and>
    (form req ''task'' = Some zero_shot_classification \<longrightarrow>
     get_pipeline_flask lib (Some zero_shot_classification) s = (Inr nlp, s1) \<longrightarrow>
     trace (snd (index_flask lib req s)) =
       trace s1 @ [Called_nlp nlp (TextLabels (form_get (form req) ''input_text'' []) [])])"
proof (intro conjI impI)
  let ?ov = "py_strip (form_get (form req) ''model_override'' [])"
  let ?body = "try_flask2 lib zero_shot_classification
                   (py_strip (form_get (form req) ''input_text'' []))
                   (py_strip (form_get (form req) ''labels'' [])) ?ov s2"
  have nolabels: "parse_labels (py_strip (form_get (form req) ''labels'' [])) = []"
    using assms(3) by (simp add: parse_labels_py_strip)
  obtain r sa where gp: "get_pipeline_flask2 lib zero_shot_classification
      (override_flask2 zero_shot_classification ?ov s2) = (r, sa)"
    by (cases "get_pipeline_flask2 lib zero_shot_classification
      (override_flask2 zero_shot_classification ?ov s2)")
  have body: "?body = (case r of Inl e \<Rightarrow> (Inl e, sa)
      | Inr p \<Rightarrow> (Inl (ValueError
           (lit ''Zero-shot requires at least one comma-separated label.'')), sa))"
    using gp nolabels by (simp add: try_flask2_def tasks_distinct split: sum.splits)
  have tr: "filter is_nlp_call (trace sa) = filter is_nlp_call (trace s2)"
    using get_pipeline_flask2_nlp_calls[OF gp] by simp
  show "isl (fst ?body)" by (simp add: body split: sum.splits)
  show "filter is_nlp_call (trace (snd ?body)) = filter is_nlp_call (trace s2)"
    using tr by (simp add: body split: sum.splits)
  { assume "get_pipeline_flask2 lib zero_shot_classification
          (override_flask2 zero_shot_classification ?ov s2) = (Inr nlp2, s3)"
    then show "?body = (Inl (ValueError
         (lit ''Zero-shot requires at least one comma-separated label.'')), s3)"
      using gp body by simp }
next
  assume task: "form req ''task'' = Some zero_shot_classification"
    and gp: "get_pipeline_flask lib (Some zero_shot_classification) s = (Inr nlp, s1)"
  obtain r sb where call:
    "call_nlp lib nlp (TextLabels (form_get (form req) ''input_text'' []) []) s1 = (r, sb)"
    by (cases "call_nlp lib nlp (TextLabels (form_get (form req) ''input_text'' []) []) s1")
  have "snd (index_flask lib req s) = sb"
    using assms task gp call
    by (simp add: index_flask_def Let_def run_flask_def tasks_distinct split: sum.splits)
  then show "trace (snd (index_flask lib req s)) =
       trace s1 @ [Called_nlp nlp (TextLabels (form_get (form req) ''input_text'' []) [])]"
    using call_nlp_trace[OF call] by simp
qed

theorem zero_shot_without_labels_witness:
  "request_method (post [''task'' \<mapsto> zero_shot_classification, ''input_text'' \<mapsto> lit ''x'',
      ''labels'' \<mapsto> lit ''  '']) = POST \<and>
   py_strip (form_get (form (post [''task'' \<mapsto> zero_shot_classification,
      ''input_text'' \<mapsto> lit ''x'', ''labels'' \<mapsto> lit ''  ''])) ''input_text'' []) \<noteq> [] \<and>
   parse_labels (form_get (form (post [''task'' \<mapsto> zero_shot_classification,
      ''input_text'' \<mapsto> lit ''x'', ''labels'' \<mapsto> lit ''  ''])) ''labels'' []) = [] \<and>
   get_pipeline_flask2 demo_library zero_shot_classification (initial_flask2 0) =
     (Inr bart_large_mnli, zero_shot_flask2) \<and>
   try_flask2 demo_library zero_shot_classification (lit ''x'') [] [] (initial_flask2 0) =
     (Inl (ValueError (lit ''Zero-shot requires at least one comma-separated label.'')),
      zero_shot_flask2) \<and>
   filter is_nlp_call (trace zero_shot_flask2) = [] \<and>
   get_pipeline_flask demo_library (Some zero_shot_classification) (initial_flask 0) =
     (Inr bart_large_mnli, zero_shot_flask) \<and>
   trace (snd (index_flask demo_library
      (post [''task'' \<mapsto> zero_shot_classification, ''input_text'' \<mapsto> lit ''x'',
             ''labels'' \<mapsto> lit ''  '']) (initial_flask 0))) =
     trace zero_shot_flask @ [Called_nlp bart_large_mnli (TextLabels (lit ''x'') [])]"
proof -
  let ?req = "post [''task'' \<mapsto> zero_shot_classification, ''input_text'' \<mapsto> lit ''x'',
      ''labels'' \<mapsto> lit ''  '']"
  have m: "request_method ?req = POST" by (simp add: post_def)
  have b: "py_strip (form_get (form ?req) ''input_text'' []) \<noteq> []"
    by (simp add: post_def form_get_def lit_def py_strip_def isspace_def)
  have l: "parse_labels (form_get (form ?req) ''labels'' []) = []"
    by (simp add: post_def form_get_def lit_defs parse_labels_def py_strip_def isspace_def)
  have f: "form ?req ''task'' = Some zero_shot_classification"
    "selected_task_flask2 ?req = zero_shot_classification"
    "form_get (form ?req) ''input_text'' [] = lit ''x''"
    "py_strip (form_get (form ?req) ''input_text'' []) = lit ''x''"
    "py_strip (form_get (form ?req) ''labels'' []) = []"
    "py_strip (form_get (form ?req) ''model_override'' []) = []"
    by (simp_all add: post_def form_get_def lit_def py_strip_def isspace_def
        selected_task_flask2_def tasks_nonempty)
  have ov: "override_flask2 zero_shot_classification []
              (initial_flask2 0 :: (pystr, nat) state_flask2) = initial_flask2 0"
    by (simp add: override_flask2_def)
  have g2: "get_pipeline_flask2 demo_library zero_shot_classification (initial_flask2 0) =
     (Inr bart_large_mnli, zero_shot_flask2)"
    by (simp add: zero_shot_flask2_def run_defs lit_defs)
  have g1: "get_pipeline_flask demo_library (Some zero_shot_classification) (initial_flask 0) =
     (Inr bart_large_mnli, zero_shot_flask)"
    by (simp add: zero_shot_flask_def run_defs lit_defs)
  have t0: "trace (initial_flask2 0 :: (pystr, nat) state_flask2) = []"
    by (simp add: initial_flask2_def)
  have x: "py_strip (lit ''x'') = lit ''x''"
    by (simp add: lit_def py_strip_def isspace_def)
  show ?thesis
    using m b l g1 g2
      zero_shot_without_labels [OF m b l, of demo_library "initial_flask2 0" bart_large_mnli
        zero_shot_flask2 "initial_flask 0" bart_large_mnli zero_shot_flask]
    by (auto simp add: f ov t0 x)
qed

text \<open>
  The claim as stated fails on flask.py: with the labels \<^verbatim>\<open>"  "\<close> the pipeline is called,
  with no candidate labels, and its answer is rendered.
\<close>

theorem zero_shot_flask_counterexample:
  "trace (snd (index_flask demo_library
      (post [''task'' \<mapsto> zero_shot_classification, ''input_text'' \<mapsto> lit ''x'',
             ''labels'' \<mapsto> lit ''  '']) (initial_flask 0))) =
     [Called_get_pipeline (Some zero_shot_classification),
      Called_pipeline zero_shot_classification bart_large_mnli None,
      Called_nlp bart_large_mnli (TextLabels (lit ''x'') [])] \<and>
   fst (index_flask demo_library
      (post [''task'' \<mapsto> zero_shot_classification, ''input_text'' \<mapsto> lit ''x'',
             ''labels'' \<mapsto> lit ''  '']) (initial_flask 0)) =
     Inr (render_flask (PResult bart_large_mnli) (lit ''x'') (PStr zero_shot_classification)
            (lit ''  ''))"
  by (simp add: run_defs lit_defs)


section \<open>Cache hits (claim C5)\<close>

text \<open>
  Claim C5. When \<^verbatim>\<open>get_pipeline\<close> has returned a pipeline for a task, a later call for
  the same task returns that same object and does nothing but record the call: no
  constructor call, no log record, no change of the cache. This holds in both files
  and in every later state that still has the cache entry, whatever happened to
  \<^verbatim>\<open>MODEL_CHOICES\<close> (a model override) or to the library's world in between.
\<close>

theorem second_call_is_cache_hit:
  "(get_pipeline_flask lib task s = (Inr p, s1) \<longrightarrow>
      pipelines_cache t task = pipelines_cache s1 task \<longrightarrow>
      get_pipeline_flask lib task t = (Inr p, emit (Called_get_pipeline task) t)) \<and>
   (get_pipeline_flask2 lib task2 s2 = (Inr p2, s3) \<longrightarrow>
      pipelines t2 task2 = pipelines s3 task2 \<longrightarrow>
      transformers_imported t2 = transformers_imported s3 \<longrightarrow>
      get_pipeline_flask2 lib task2 t2 = (Inr p2, emit (Called_get_pipeline (Some task2)) t2))"
proof (intro conjI impI)
  assume "get_pipeline_flask lib task s = (Inr p, s1)"
    and "pipelines_cache t task = pipelines_cache s1 task"
  then have "pipelines_cache t task = Some p" by (simp add: get_pipeline_flask_returned)
  then show "get_pipeline_flask lib task t = (Inr p, emit (Called_get_pipeline task) t)"
    by (rule get_pipeline_flask_hit)
next
  assume "get_pipeline_flask2 lib task2 s2 = (Inr p2, s3)"
    and "pipelines t2 task2 = pipelines s3 task2"
    and "transformers_imported t2 = transformers_imported s3"
  then have "pipelines t2 task2 = Some p2" and "transformers_imported t2"
    by (simp_all add: get_pipeline_flask2_returned)
  then show "get_pipeline_flask2 lib task2 t2 = (Inr p2, emit (Called_get_pipeline (Some task2)) t2)"
    by (rule get_pipeline_flask2_hit)
qed

theorem second_call_is_cache_hit_witness:
  "get_pipeline_flask demo_library (Some sentiment_analysis) (initial_flask 0) =
     (Inr distilbert_sst2, loaded_flask) \<and>
   get_pipeline_flask demo_library (Some sentiment_analysis) loaded_flask =
     (Inr distilbert_sst2, emit (Called_get_pipeline (Some sentiment_analysis)) loaded_flask) \<and>
   get_pipeline_flask2 demo_library sentiment_analysis (initial_flask2 0) =
     (Inr distilbert_sst2, loaded_flask2) \<and>
   get_pipeline_flask2 demo_library sentiment_analysis
     (override_flask2 sentiment_analysis (lit ''gpt2'') loaded_flask2) =
     (Inr distilbert_sst2,
      emit (Called_get_pipeline (Some sentiment_analysis))
        (override_flask2 sentiment_analysis (lit ''gpt2'') loaded_flask2))"
proof -
  have h1: "get_pipeline_flask demo_library (Some sentiment_analysis) (initial_flask 0) =
     (Inr distilbert_sst2, loaded_flask)"
    by (simp add: loaded_flask_def run_defs lit_defs)
  have h2: "get_pipeline_flask2 demo_library sentiment_analysis (initial_flask2 0) =
     (Inr distilbert_sst2, loaded_flask2)"
    by (simp add: loaded_flask2_def run_defs lit_defs)
  have h3: "pipelines (override_flask2 sentiment_analysis (lit ''gpt2'') loaded_flask2)
              sentiment_analysis = pipelines loaded_flask2 sentiment_analysis"
    "transformers_imported (override_flask2 sentiment_analysis (lit ''gpt2'') loaded_flask2) =
       transformers_imported loaded_flask2"
    by simp_all
  show ?thesis
    using h1 h2 h3
      second_call_is_cache_hit [of demo_library "Some sentiment_analysis" "initial_flask 0"
        distilbert_sst2 loaded_flask loaded_flask sentiment_analysis "initial_flask2 0"
        distilbert_sst2 loaded_flask2
        "override_flask2 sentiment_analysis (lit ''gpt2'') loaded_flask2"]
    by blast
qed


section \<open>The model override (claim C6)\<close>

text \<open>
  Claim C6, as amended. In flask2.py a POST request whose input text is not blank and
  whose \<^verbatim>\<open>model_override\<close> is not blank writes the trimmed override into
  \<^verbatim>\<open>MODEL_CHOICES\<close> under the selected task, whatever the outcome of the request. The
  entry outlives the request: a following request that carries no override finds and
  leaves the table as the first one left it, and a following \<^verbatim>\<open>get_pipeline\<close> for
  that task, when it is a supported task that is not in the cache, reads the override
  from the table: what this call adds to the trace is its own record, the log line of
  line 30 naming the overridden model, the constructor call with the overridden model,
  and the closing log line.
\<close>

theorem override_persists:
  assumes "request_method req = POST"
    and "py_strip (form_get (form req) ''input_text'' []) \<noteq> []"
    and "py_strip (form_get (form req) ''model_override'' []) \<noteq> []"
  shows
   "MODEL_CHOICES (snd (index_flask2 lib req s)) =
      (MODEL_CHOICES s)(selected_task_flask2 req \<mapsto>
         py_strip (form_get (form req) ''model_override'' [])) \<and>
    (py_strip (form_get (form req') ''model_override'' []) = [] \<longrightarrow>
     MODEL_CHOICES (snd (index_flask2 lib req' (snd (index_flask2 lib req s)))) =
       (MODEL_CHOICES s)(selected_task_flask2 req \<mapsto>
          py_strip (form_get (form req) ''model_override'' []))) \<and>
    ((selected_task_flask2 req = sentiment_analysis \<or> selected_task_flask2 req = summarization \<or>
      selected_task_flask2 req = zero_shot_classification) \<longrightarrow>
     pipelines (snd (index_flask2 lib req s)) (selected_task_flask2 req) = None \<longrightarrow>
     (transformers_imported (snd (index_flask2 lib req s)) \<or>
      fst (import_pipeline lib (world (snd (index_flask2 lib req s)))) = None) \<longrightarrow>
     trace (snd (get_pipeline_flask2 lib (selected_task_flask2 req)
                   (snd (index_flask2 lib req s)))) =
       trace (snd (index_flask2 lib req s)) @
       [Called_get_pipeline (Some (selected_task_flask2 req)),
        Logged_info (loading_message (selected_task_flask2 req)
                       (py_strip (form_get (form req) ''model_override'' []))),
        Called_pipeline (selected_task_flask2 req)
          (py_strip (form_get (form req) ''model_override'' [])) (Some (- 1))] @
       (case fst (get_pipeline_flask2 lib (selected_task_flask2 req)
                    (snd (index_flask2 lib req s))) of
          Inr p \<Rightarrow> [Logged_info (lit ''Pipeline loaded.'')]
        | Inl e \<Rightarrow>
            if is_Exception e then
              [Logged_error (lit ''Failed to load pipeline:'' @ [10] @ format_exc lib e)]
            else []))"
proof -
  let ?task = "selected_task_flask2 req"
  let ?ov = "py_strip (form_get (form req) ''model_override'' [])"
  let ?s' = "snd (index_flask2 lib req s)"
  have first: "MODEL_CHOICES ?s' = (MODEL_CHOICES s)(?task \<mapsto> ?ov)"
    using assms by (simp add: index_flask2_MODEL_CHOICES override_flask2_MODEL_CHOICES)
  have later: "py_strip (form_get (form req') ''model_override'' []) = [] \<Longrightarrow>
     MODEL_CHOICES (snd (index_flask2 lib req' ?s')) = (MODEL_CHOICES s)(?task \<mapsto> ?ov)"
    using first by (simp add: index_flask2_MODEL_CHOICES override_flask2_MODEL_CHOICES)
  have entry: "MODEL_CHOICES ?s' ?task = Some ?ov" using first by simp
  have load: "?task = sentiment_analysis \<or> ?task = summarization \<or>
      ?task = zero_shot_classification \<Longrightarrow>
     pipelines ?s' ?task = None \<Longrightarrow>
     transformers_imported ?s' \<or> fst (import_pipeline lib (world ?s')) = None \<Longrightarrow>
     trace (snd (get_pipeline_flask2 lib ?task ?s')) =
       trace ?s' @
       [Called_get_pipeline (Some ?task), Logged_info (loading_message ?task ?ov),
        Called_pipeline ?task ?ov (Some (- 1))] @
       (case fst (get_pipeline_flask2 lib ?task ?s') of
          Inr p \<Rightarrow> [Logged_info (lit ''Pipeline loaded.'')]
        | Inl e \<Rightarrow>
            if is_Exception e then
              [Logged_error (lit ''Failed to load pipeline:'' @ [10] @ format_exc lib e)]
            else [])"
    using entry assms(3) by (intro get_pipeline_flask2_constructs)
  show ?thesis using first later load by blast
qed

theorem override_persists_witness:
  "request_method (post [''task'' \<mapsto> sentiment_analysis, ''input_text'' \<mapsto> lit ''hello'',
      ''model_override'' \<mapsto> lit ''no-such-model'']) = POST \<and>
   py_strip (form_get (form (post [''task'' \<mapsto> sentiment_analysis,
      ''input_text'' \<mapsto> lit ''hello'', ''model_override'' \<mapsto> lit ''no-such-model'']))
      ''input_text'' []) \<noteq> [] \<and>
   py_strip (form_get (form (post [''task'' \<mapsto> sentiment_analysis,
      ''input_text'' \<mapsto> lit ''hello'', ''model_override'' \<mapsto> lit ''no-such-model'']))
      ''model_override'' []) \<noteq> [] \<and>
   MODEL_CHOICES overridden_flask2 =
     (MODEL_CHOICES (initial_flask2 0 :: (pystr, nat) state_flask2))
       (sentiment_analysis \<mapsto> lit ''no-such-model'') \<and>
   MODEL_CHOICES (snd (index_flask2 demo_library
       (post [''task'' \<mapsto> sentiment_analysis, ''input_text'' \<mapsto> lit ''again''])
       overridden_flask2)) =
     (MODEL_CHOICES (initial_flask2 0 :: (pystr, nat) state_flask2))
       (sentiment_analysis \<mapsto> lit ''no-such-model'') \<and>
   pipelines overridden_flask2 sentiment_analysis = None \<and>
   transformers_imported overridden_flask2 \<and>
   fst (get_pipeline_flask2 demo_library sentiment_analysis overridden_flask2) =
     Inl (LibException 404) \<and>
   trace (snd (get_pipeline_flask2 demo_library sentiment_analysis overridden_flask2)) =
     trace overridden_flask2 @
     [Called_get_pipeline (Some sentiment_analysis),
      Logged_info (loading_message sentiment_analysis (lit ''no-such-model'')),
      Called_pipeline sentiment_analysis (lit ''no-such-model'') (Some (- 1)),
      Logged_error (lit ''Failed to load pipeline:'' @ [10] @
        format_exc demo_library (LibException 404))]"
proof -
  let ?req = "post [''task'' \<mapsto> sentiment_analysis, ''input_text'' \<mapsto> lit ''hello'',
      ''model_override'' \<mapsto> lit ''no-such-model'']"
  let ?req' = "post [''task'' \<mapsto> sentiment_analysis, ''input_text'' \<mapsto> lit ''again'']"
  have m: "request_method ?req = POST" by (simp add: post_def)
  have b: "py_strip (form_get (form ?req) ''input_text'' []) \<noteq> []"
    by (simp add: post_def form_get_def lit_def py_strip_def isspace_def)
  have o: "py_strip (form_get (form ?req) ''model_override'' []) \<noteq> []"
    by (simp add: post_def form_get_def lit_def py_strip_def isspace_def)
  have f: "selected_task_flask2 ?req = sentiment_analysis"
    "py_strip (form_get (form ?req) ''model_override'' []) = lit ''no-such-model''"
    "py_strip (form_get (form ?req') ''model_override'' []) = []"
    by (simp_all add: post_def form_get_def lit_def py_strip_def isspace_def
        selected_task_flask2_def tasks_nonempty)
  have c: "pipelines overridden_flask2 sentiment_analysis = None"
    "transformers_imported overridden_flask2"
    by (simp_all add: overridden_flask2_def initial_flask2_def)
  have r: "snd (index_flask2 demo_library ?req (initial_flask2 0)) = overridden_flask2"
    by (simp add: overridden_flask2_def run_defs lit_defs)
  have g: "fst (get_pipeline_flask2 demo_library sentiment_analysis overridden_flask2) =
     Inl (LibException 404)"
    by (simp add: overridden_flask2_def run_defs lit_defs)
  show ?thesis
    using m b o c g
      override_persists [OF m b o, of demo_library "initial_flask2 0" ?req']
    by (simp add: f r)
qed

text \<open>
  The claim as stated fails when the input text is empty: line 137 answers with the
  input error before the override of lines 142-144 is reached, and the table keeps the
  default model.
\<close>

theorem override_blank_input_counterexample:
  "MODEL_CHOICES (snd (index_flask2 demo_library
      (post [''task'' \<mapsto> sentiment_analysis, ''input_text'' \<mapsto> [],
             ''model_override'' \<mapsto> lit ''gpt2''])
      (initial_flask2 0))) sentiment_analysis = Some distilbert_sst2 \<and>
   distilbert_sst2 \<noteq> lit ''gpt2''"
  by (simp add: run_defs lit_defs)


section \<open>Parsing the candidate labels (claim C7)\<close>

text \<open>
  Claim C7, as amended. The parsed list is made of the comma-separated fields of the
  labels string, each trimmed of whitespace, without the fields that are empty after
  trimming, in their original order; nothing removes duplicates. The fields are those
  of the string: joined by commas they give it back and none holds a comma. Each label
  is non-empty and neither starts nor ends with whitespace. Trimming the whole string
  first, as flask2.py does on line 134, gives the same list as flask.py gets from the
  raw field.
\<close>

theorem parse_labels_fields:
  "parse_labels s = filter (\<lambda>l. l \<noteq> []) (map py_strip (py_split comma s)) \<and>
   py_join comma (py_split comma s) = s \<and>
   list_all (\<lambda>f. comma \<notin> set f) (py_split comma s) \<and>
   list_all (\<lambda>l. l \<noteq> [] \<and> \<not> isspace (hd l) \<and> \<not> isspace (last l)) (parse_labels s) \<and>
   parse_labels (py_strip s) = parse_labels s"
  using parse_labels_alt [of s] py_join_py_split [of comma s] py_split_no_sep [of comma s]
    parse_labels_trimmed [of s] parse_labels_py_strip [of s]
  by simp

theorem parse_labels_fields_witness:
  "parse_labels (lit '' sports, ,politics ,sports'') =
     [lit ''sports'', lit ''politics'', lit ''sports''] \<and>
   py_split comma (lit '' sports, ,politics ,sports'') =
     [lit '' sports'', lit '' '', lit ''politics '', lit ''sports''] \<and>
   parse_labels (py_strip (lit '' sports, ,politics ,sports'')) =
     [lit ''sports'', lit ''politics'', lit ''sports'']"
proof -
  have p: "py_split comma (lit '' sports, ,politics ,sports'') =
     [lit '' sports'', lit '' '', lit ''politics '', lit ''sports'']"
    by (simp add: lit_defs)
  have s: "map py_strip [lit '' sports'', lit '' '', lit ''politics '', lit ''sports''] =
     [lit ''sports'', [], lit ''politics'', lit ''sports'']"
    by (simp add: lit_defs py_strip_def isspace_def)
  have n: "lit ''sports'' \<noteq> []" "lit ''politics'' \<noteq> []" by (simp_all add: lit_def)
  show ?thesis
    using parse_labels_fields [of "lit '' sports, ,politics ,sports''"] p s n by simp
qed

text \<open>The claim as stated fails: a label given twice is kept twice.\<close>

theorem parse_labels_duplicates_counterexample:
  "parse_labels (lit ''sports, sports'') = [lit ''sports'', lit ''sports''] \<and>
   \<not> distinct (parse_labels (lit ''sports, sports''))"
  by (simp add: parse_labels_def lit_defs py_strip_def isspace_def)


section \<open>Failed loads (claim C8)\<close>

text \<open>
  Claim C8. A failing \<^verbatim>\<open>get_pipeline\<close> leaves the cache as it was, in flask2.py
  (first part) and in flask.py (fourth part). In flask2.py the exception the
  constructor raised is the one \<^verbatim>\<open>get_pipeline\<close> raises (second part), and a request
  during which \<^verbatim>\<open>get_pipeline\<close> fails ends with the cache it started with (third
  part). In flask.py the exception of \<^verbatim>\<open>get_pipeline\<close> leaves \<^verbatim>\<open>index\<close> as it is, in the
  state \<^verbatim>\<open>get_pipeline\<close> left (fifth part).
\<close>

theorem failed_load_keeps_cache:
  "(get_pipeline_flask2 lib task s = (Inl e, s1) \<longrightarrow> pipelines s1 = pipelines s) \<and>
   (fst (import_stmt lib (emit (Called_get_pipeline (Some task)) s)) = None \<longrightarrow>
    pipelines s task = None \<longrightarrow> MODEL_CHOICES s task = Some model \<longrightarrow> model \<noteq> [] \<longrightarrow>
    fst (construct_flask2 lib task model
           (emit (Logged_info (loading_message task model))
              (snd (import_stmt lib (emit (Called_get_pipeline (Some task)) s))))) = Inl e' \<longrightarrow>
    fst (get_pipeline_flask2 lib task s) = Inl e') \<and>
   (request_method req = POST \<longrightarrow> py_strip (form_get (form req) ''input_text'' []) \<noteq> [] \<longrightarrow>
    get_pipeline_flask2 lib (selected_task_flask2 req)
      (override_flask2 (selected_task_flask2 req)
         (py_strip (form_get (form req) ''model_override'' [])) s) = (Inl e, s1) \<longrightarrow>
    pipelines (snd (index_flask2 lib req s)) = pipelines s) \<and>
   (get_pipeline_flask lib (form req ''task'') t = (Inl e, t1) \<longrightarrow>
    pipelines_cache t1 = pipelines_cache t) \<and>
   (request_method req = POST \<longrightarrow> py_strip (form_get (form req) ''input_text'' []) \<noteq> [] \<longrightarrow>
    get_pipeline_flask lib (form req ''task'') t = (Inl e, t1) \<longrightarrow>
    index_flask lib req t = (Inl e, t1))"
  using get_pipeline_flask2_raised [of lib task s e s1]
    get_pipeline_flask2_construct_raised [of lib task s model e']
    index_flask2_raised_in_get_pipeline [of req lib s e s1]
    get_pipeline_flask_raised [of lib "form req ''task''" t e t1]
    index_flask_raised_in_get_pipeline [of req lib t e t1]
  by blast

theorem failed_load_keeps_cache_witness:
  "get_pipeline_flask2 failing_library sentiment_analysis (initial_flask2 0) =
     (Inl (LibException 503), failed_flask2) \<and>
   pipelines failed_flask2 = pipelines (initial_flask2 0 :: (pystr, nat) state_flask2) \<and>
   fst (get_pipeline_flask2 failing_library sentiment_analysis (initial_flask2 0)) =
     Inl (LibException 503) \<and>
   pipelines (snd (index_flask2 failing_library
       (post [''task'' \<mapsto> sentiment_analysis, ''input_text'' \<mapsto> lit ''hello''])
       (initial_flask2 0))) = pipelines (initial_flask2 0 :: (pystr, nat) state_flask2) \<and>
   get_pipeline_flask failing_library (Some sentiment_analysis) (initial_flask 0) =
     (Inl (LibException 503), failed_flask) \<and>
   pipelines_cache failed_flask = pipelines_cache (initial_flask 0 :: (pystr, nat) state_flask) \<and>
   index_flask failing_library
     (post [''task'' \<mapsto> sentiment_analysis, ''input_text'' \<mapsto> lit ''hello''])
     (initial_flask 0) = (Inl (LibException 503), failed_flask)"
proof -
  let ?req = "post [''task'' \<mapsto> sentiment_analysis, ''input_text'' \<mapsto> lit ''hello'']"
  have m: "request_method ?req = POST" by (simp add: post_def)
  have b: "py_strip (form_get (form ?req) ''input_text'' []) \<noteq> []"
    by (simp add: post_def form_get_def lit_def py_strip_def isspace_def)
  have f: "form ?req ''task'' = Some sentiment_analysis"
    "selected_task_flask2 ?req = sentiment_analysis"
    "py_strip (form_get (form ?req) ''model_override'' []) = []"
    by (simp_all add: post_def form_get_def py_strip_def selected_task_flask2_def tasks_nonempty)
  have ov: "override_flask2 sentiment_analysis [] (initial_flask2 0 :: (pystr, nat) state_flask2) =
            initial_flask2 0"
    by (simp add: override_flask2_def)
  have g2: "get_pipeline_flask2 failing_library sentiment_analysis (initial_flask2 0) =
     (Inl (LibException 503), failed_flask2)"
    by (simp add: failed_flask2_def failing_library_def run_defs lit_defs)
  have g1: "get_pipeline_flask failing_library (Some sentiment_analysis) (initial_flask 0) =
     (Inl (LibException 503), failed_flask)"
    by (simp add: failed_flask_def failing_library_def run_defs lit_defs)
  have i: "fst (import_stmt failing_library
      (emit (Called_get_pipeline (Some sentiment_analysis)) (initial_flask2 0))) = None"
    by (simp add: failing_library_def run_defs)
  have c: "pipelines (initial_flask2 0 :: (pystr, nat) state_flask2) sentiment_analysis = None"
    "MODEL_CHOICES (initial_flask2 0 :: (pystr, nat) state_flask2) sentiment_analysis =
       Some distilbert_sst2"
    "distilbert_sst2 \<noteq> []"
    by (simp_all add: initial_flask2_def lit_defs)
  have k: "fst (construct_flask2 failing_library sentiment_analysis distilbert_sst2
           (emit (Logged_info (loading_message sentiment_analysis distilbert_sst2))
              (snd (import_stmt failing_library
                 (emit (Called_get_pipeline (Some sentiment_analysis)) (initial_flask2 0)))))) =
         Inl (LibException 503)"
    by (simp add: failing_library_def construct_flask2_def call_pipeline_def demo_library_def)
  show ?thesis
    using m b g1 g2 i c k
      failed_load_keeps_cache [of failing_library sentiment_analysis "initial_flask2 0"
        "LibException 503" failed_flask2 distilbert_sst2 "LibException 503" ?req
        "initial_flask 0" failed_flask]
    by (simp add: f ov)
qed


section \<open>The default task (claim C9)\<close>

text \<open>
  Claim C9. In flask2.py a request whose \<^verbatim>\<open>task\<close> field is missing or empty is handled
  exactly as the same request with \<^verbatim>\<open>task\<close> set to \<^verbatim>\<open>sentiment-analysis\<close>: same
  outcome and same state afterwards.
\<close>

theorem missing_task_defaults:
  assumes "form req ''task'' = None \<or> form req ''task'' = Some []"
  shows "index_flask2 lib req s =
         index_flask2 lib (req\<lparr>form := (form req)(''task'' \<mapsto> sentiment_analysis)\<rparr>) s"
proof -
  have ne: "sentiment_analysis \<noteq> []" by (simp add: sentiment_analysis_def lit_def)
  have "selected_task_flask2 (req\<lparr>form := (form req)(''task'' \<mapsto> sentiment_analysis)\<rparr>) =
        selected_task_flask2 req"
    using assms ne by (auto simp add: selected_task_flask2_def)
  then show ?thesis by (simp add: index_flask2_def form_get_def)
qed

theorem missing_task_defaults_witness:
  "(form (post [''input_text'' \<mapsto> lit ''good'']) ''task'' = None \<or>
    form (post [''input_text'' \<mapsto> lit ''good'']) ''task'' = Some []) \<and>
   index_flask2 demo_library (post [''input_text'' \<mapsto> lit ''good'']) (initial_flask2 0) =
   index_flask2 demo_library
     ((post [''input_text'' \<mapsto> lit ''good''])
        \<lparr>form := (form (post [''input_text'' \<mapsto> lit ''good'']))(''task'' \<mapsto> sentiment_analysis)\<rparr>)
     (initial_flask2 0) \<and>
   fst (index_flask2 demo_library (post [''input_text'' \<mapsto> lit ''good'']) (initial_flask2 0)) =
     Inr (render_flask2 (PResult distilbert_sst2) PNone (lit ''good'') sentiment_analysis [] [])"
proof -
  have h: "form (post [''input_text'' \<mapsto> lit ''good'']) ''task'' = None \<or>
           form (post [''input_text'' \<mapsto> lit ''good'']) ''task'' = Some []"
    by (simp add: post_def)
  have run: "fst (index_flask2 demo_library (post [''input_text'' \<mapsto> lit ''good'']) (initial_flask2 0)) =
     Inr (render_flask2 (PResult distilbert_sst2) PNone (lit ''good'') sentiment_analysis [] [])"
    by (simp add: run_defs lit_defs)
  show ?thesis
    using h run missing_task_defaults [OF h, of demo_library "initial_flask2 0"] by simp
qed


section \<open>GET requests (claim C10)\<close>

text \<open>
  Claim C10. A GET request runs no inference and changes nothing that outlives the
  request: both files return the page with the default values and the state they were
  given, so the pipeline cache, \<^verbatim>\<open>MODEL_CHOICES\<close>, the library's world and the trace are
  as before.
\<close>

theorem get_request_changes_nothing:
  assumes "request_method req = GET"
  shows "index_flask lib req s = (Inr (render_flask PNone [] (PStr sentiment_analysis) []), s) \<and>
         index_flask2 lib req s2 =
           (Inr (render_flask2 PNone PNone [] sentiment_analysis [] []), s2)"
  using assms by (simp add: index_flask_def index_flask2_def)

theorem get_request_changes_nothing_witness:
  "request_method \<lparr>request_method = GET, form = Map.empty\<rparr> = GET \<and>
   index_flask demo_library \<lparr>request_method = GET, form = Map.empty\<rparr> (initial_flask 0) =
     (Inr (render_flask PNone [] (PStr sentiment_analysis) []), initial_flask 0) \<and>
   index_flask2 demo_library \<lparr>request_method = GET, form = Map.empty\<rparr> (initial_flask2 0) =
     (Inr (render_flask2 PNone PNone [] sentiment_analysis [] []), initial_flask2 0)"
proof -
  have m: "request_method \<lparr>request_method = GET, form = Map.empty\<rparr> = GET" by simp
  show ?thesis
    using m get_request_changes_nothing [OF m, of demo_library "initial_flask 0" "initial_flask2 0"]
    by simp
qed

end
